theory Spec2Isabelle
  imports Main "HOL-Library.Sublist"
begin

section \<open>Strings, JSON text and plain objects\<close>

text \<open>
  A JavaScript string is a \<^typ>\<open>string\<close>, one \<^typ>\<open>char\<close> per code unit; the model is exact
  for the ASCII paths, header names and JSON punctuation the dev server works with.
  \<open>s.startsWith(p)\<close>, \<open>s.endsWith(p)\<close> and \<open>s.slice(n)\<close> are \<open>prefix p s\<close>,
  \<open>suffix p s\<close> and \<open>drop n s\<close>.
\<close>

definition startsWith :: "string \<Rightarrow> string \<Rightarrow> bool" where
  "startsWith s p \<longleftrightarrow> prefix p s"

definition endsWith :: "string \<Rightarrow> string \<Rightarrow> bool" where
  "endsWith s p \<longleftrightarrow> suffix p s"

text \<open>\<open>parts.join(sep)\<close>.\<close>

fun join :: "string \<Rightarrow> string list \<Rightarrow> string" where
  "join sep [] = []"
| "join sep [x] = x"
| "join sep (x # y # ys) = x @ sep @ join sep (y # ys)"

text \<open>\<open>s.split(c)\<close> for a one-character separator: \<open>''''.split(c)\<close> is \<open>['''']\<close>.\<close>

fun str_split :: "char \<Rightarrow> string \<Rightarrow> string list" where
  "str_split c [] = [[]]"
| "str_split c (x # xs) =
     (if x = c then [] # str_split c xs
      else (case str_split c xs of w # ws \<Rightarrow> (x # w) # ws | [] \<Rightarrow> [[x]]))"

definition isSpace :: "char \<Rightarrow> bool" where
  "isSpace c \<longleftrightarrow> c \<in> set [CHR '' '', CHR 0x09, CHR 0x0A, CHR 0x0B, CHR 0x0C, CHR 0x0D, CHR 0xA0]"

text \<open>\<open>s.trim()\<close>.\<close>

definition trim :: "string \<Rightarrow> string" where
  "trim s = rev (dropWhile isSpace (rev (dropWhile isSpace s)))"

text \<open>\<open>String(n)\<close> for a non-negative integer.\<close>

function String_of_nat :: "nat \<Rightarrow> string" where
  "String_of_nat n =
     (if n < 10 then [''0123456789'' ! n]
      else String_of_nat (n div 10) @ [''0123456789'' ! (n mod 10)])"
  by pat_completeness auto
termination
  by (relation "measure id") auto

declare String_of_nat.simps [simp del]

text \<open>
  The length of \<open>Buffer.from(s)\<close>, the number of bytes of the UTF-8 encoding of \<open>s\<close>. The
  strings here are sequences of code units below 256: a code unit below 128 is encoded
  in one byte, any other in two.
\<close>

fun utf8Length :: "string \<Rightarrow> nat" where
  "utf8Length [] = 0"
| "utf8Length (c # cs) = (if (of_char c :: nat) < 128 then 1 else 2) + utf8Length cs"

text \<open>Character ranges, and \<open>/\d/\<close>.\<close>

definition charBetween :: "char \<Rightarrow> char \<Rightarrow> char \<Rightarrow> bool" where
  "charBetween lo hi c \<longleftrightarrow> (of_char lo :: nat) \<le> of_char c \<and> (of_char c :: nat) \<le> of_char hi"

definition isDigit :: "char \<Rightarrow> bool" where
  "isDigit c \<longleftrightarrow> charBetween (CHR ''0'') (CHR ''9'') c"

text \<open>
  A key is an array index when it is the canonical decimal numeral of an integer from 0
  to \<open>2\<^sup>3\<^sup>2 - 2\<close>, which is 4294967294: digits only, no leading zero but for \<open>0\<close> itself.
  Canonical numerals are compared by their length, and digit by digit when the lengths
  agree.
\<close>

fun digitsLess :: "string \<Rightarrow> string \<Rightarrow> bool" where
  "digitsLess (a # as) (b # bs) =
     (if a = b then digitsLess as bs else (of_char a :: nat) < of_char b)"
| "digitsLess as bs = False"

definition indexLess :: "string \<Rightarrow> string \<Rightarrow> bool" where
  "indexLess k k' = (if length k = length k' then digitsLess k k' else length k < length k')"

definition isArrayIndex :: "string \<Rightarrow> bool" where
  "isArrayIndex k \<longleftrightarrow>
     k \<noteq> [] \<and> list_all isDigit k \<and> (if hd k = CHR ''0'' then k = ''0'' else True)
     \<and> (if length k = 10 then \<not> digitsLess ''4294967294'' k else length k < 10)"

text \<open>
  A plain object is the list of its own entries in the order it enumerates them: the
  array indices first, in ascending numeric order, then the other keys in the order they
  were created. \<open>obj[k] = v\<close> overwrites an existing entry in place; a new array index is
  put in its place among the array indices, any other new key at the end. \<open>obj[k]\<close> is
  \<^const>\<open>map_of\<close>.
\<close>

type_synonym 'v obj = "(string \<times> 'v) list"

definition keyBefore :: "string \<Rightarrow> string \<Rightarrow> bool" where
  "keyBefore k k' =
     (if isArrayIndex k then (if isArrayIndex k' then indexLess k k' else True) else False)"

fun obj_set :: "'v obj \<Rightarrow> string \<Rightarrow> 'v \<Rightarrow> 'v obj" where
  "obj_set [] k v = [(k, v)]"
| "obj_set ((k', v') # kvs) k v =
     (if k' = k then (k, v) # kvs
      else if keyBefore k k' then (k, v) # (k', v') # kvs
      else (k', v') # obj_set kvs k v)"

text \<open>\<open>Object.fromEntries(entries)\<close>: a later entry overwrites an earlier one.\<close>

definition Object_fromEntries :: "(string \<times> 'v) list \<Rightarrow> 'v obj" where
  "Object_fromEntries es = foldl (\<lambda>acc (k, v). obj_set acc k v) [] es"

text \<open>
  \<open>JSON.stringify\<close> of a string: quotation marks and backslashes are escaped, control
  characters become \<open>\b \t \n \f \r\<close> or \<open>\u00XX\<close>.
\<close>

definition JSON_escape :: "char \<Rightarrow> string" where
  "JSON_escape c =
     (if c = CHR 0x22 then [CHR 0x5C, CHR 0x22]
      else if c = CHR 0x5C then [CHR 0x5C, CHR 0x5C]
      else if c = CHR 0x08 then [CHR 0x5C, CHR ''b'']
      else if c = CHR 0x09 then [CHR 0x5C, CHR ''t'']
      else if c = CHR 0x0A then [CHR 0x5C, CHR ''n'']
      else if c = CHR 0x0C then [CHR 0x5C, CHR ''f'']
      else if c = CHR 0x0D then [CHR 0x5C, CHR ''r'']
      else if (of_char c :: nat) < 32
        then [CHR 0x5C, CHR ''u'', CHR ''0'', CHR ''0'',
              ''0123456789abcdef'' ! (of_char c div 16),
              ''0123456789abcdef'' ! (of_char c mod 16)]
      else [c])"

definition JSON_quote :: "string \<Rightarrow> string" where
  "JSON_quote s = CHR 0x22 # concat (map JSON_escape s) @ [CHR 0x22]"

text \<open>\<open>JSON.stringify\<close> of a plain object whose values are strings.\<close>

definition JSON_stringify_record :: "string obj \<Rightarrow> string" where
  "JSON_stringify_record kvs =
     ''{'' @ join '','' (map (\<lambda>(k, v). JSON_quote k @ '':'' @ JSON_quote v) kvs) @ ''}''"


section \<open>The host: URL parsing, the virtual file system, the transformer, the evaluator\<close>

text \<open>
  \<open>new URL(url, 'http://localhost')\<close> is the platform's; the dispatcher reads its
  \<open>pathname\<close>, \<open>search\<close> and \<open>searchParams\<close>.
\<close>

record url =
  url_pathname :: string
  url_search :: string
  url_searchParams :: "(string \<times> string) list"

text \<open>A thrown value: \<open>Some message\<close> for an \<open>Error\<close>, \<open>None\<close> for anything else.\<close>

type_synonym exn = "string option"

text \<open>
  The virtual file system as the server consumes it: \<open>this.exists\<close>, \<open>this.isDirectory\<close>
  (helpers of the base class, which never throw), \<open>vfs.readdirSync\<close> (\<open>None\<close> when it
  throws) and \<open>vfs.readFileSync\<close>.
\<close>

record vfs =
  exists :: "string \<Rightarrow> bool"
  isDirectory :: "string \<Rightarrow> bool"
  readdirSync :: "string \<Rightarrow> string list option"
  readFileSync :: "string \<Rightarrow> exn + string"

datatype json = JNull | JBool bool | JNum int | JStr string | JArr "json list" | JObj "(string \<times> json) list"

type_synonym headers = "string obj"

text \<open>The mock \<open>req\<close> of \<open>createMockRequest\<close>.\<close>

record mockRequest =
  req_method :: string
  req_url :: string
  req_headers :: headers
  req_query :: "string obj"
  req_body :: "json option"
  req_cookies :: "string obj"

text \<open>
  What a legacy handler does with \<open>res\<close>. \<open>json(data)\<close> and \<open>send(object)\<close> carry the
  JSON text of their argument.
\<close>

datatype sendArg = SendString string | SendObject string

datatype redirectArg = RedirectStatus nat "string option" | RedirectUrl string

datatype resCall =
    Status nat
  | SetHeader string string
  | GetHeader string
  | Write string
  | Json string
  | Send sendArg
  | End "string option"
  | Redirect redirectArg

text \<open>
  One execution of a handler module by \<open>executeApiHandler\<close>: the calls it makes on \<open>res\<close>
  until the invocation settles, whether it settles by returning or by throwing (a module
  with no callable default export throws), and the calls it makes afterwards from its
  callbacks while the dispatcher waits for \<open>end\<close>, up to the moment the dispatcher resumes.
  The dispatcher resumes once the response has ended and the callback that ended it has
  run to its end, or when the timeout fires.
\<close>

datatype outcome = Returns | Throws exn

record behaviour =
  during :: "resCall list"
  outcome :: outcome
  later :: "resCall list"

text \<open>
  \<open>ResponseData\<close>. The body is a \<open>Buffer\<close> made by \<open>Buffer.from\<close> of a string; it is given by
  that string, and its length in bytes is \<open>utf8Length\<close> of it.
\<close>

record responseData =
  statusCode :: nat
  statusMessage :: string
  res_headers :: headers
  body :: string

text \<open>A route parameter is a string (\<open>[name]\<close>) or a sequence of strings (catch-alls).\<close>

datatype param = Single string | CatchAll "string list"

text \<open>
  An app-router handler is called with a web \<open>Request\<close> and the route parameters; it
  returns a web \<open>Response\<close>, a plain object (given by its JSON text), any other value
  (given by \<open>String(value || '')\<close>), or throws.
\<close>

record webRequest =
  w_method :: string
  w_url :: string
  w_headers :: headers
  w_body :: "string option"

datatype handlerResult =
    WebResponse nat string headers string
  | PlainObject string
  | OtherValue string
  | HandlerThrew exn

text \<open>
  What reading a property of \<open>module.exports\<close> yields: a function, or a value that is not
  one (\<open>undefined\<close> for an absent property), of which only its truthiness matters.
\<close>

datatype jsExport =
    Function "webRequest \<Rightarrow> param obj \<Rightarrow> handlerResult"
  | NotFunction bool

text \<open>The result object of \<open>loadTailwindConfig\<close>.\<close>

record tailwindResult =
  success :: bool
  configScript :: string
  tw_error :: "string option"

text \<open>
  The collaborators the dev server is given: the URL parser, \<open>JSON.parse\<close>,
  \<open>decodeURIComponent\<close>, the source hash, the two transforms (\<open>transformCode\<close> to ESM
  for the browser, \<open>transformApiHandler\<close> to CJS for handlers: both hand the code to the
  transform backend and to helpers outside these sources, read the file system and may
  throw), the evaluator of legacy handler code and of app-router route modules (both
  see the whole environment), the Tailwind configuration loader, the base class's
  \<open>notFound\<close>, \<open>serverError\<close> and \<open>serveFile\<close>, and the test \<open>error.code === 'ENOENT'\<close>.
  A handler may write to the file system; the dispatcher does not observe such writes
  within the request, and the model keeps the file system fixed per request.
\<close>

record host =
  parseURL :: "string \<Rightarrow> url"
  JSON_parse :: "string \<Rightarrow> exn + json"
  decodeURIComponent :: "string \<Rightarrow> exn + string"
  simpleHash :: "string \<Rightarrow> string"
  transformCode :: "vfs \<Rightarrow> string \<Rightarrow> string \<Rightarrow> exn + string"
  transformApiHandler :: "vfs \<Rightarrow> string \<Rightarrow> string \<Rightarrow> exn + string"
  execute :: "string \<Rightarrow> string obj \<Rightarrow> mockRequest \<Rightarrow> behaviour"
  evaluateModule :: "string \<Rightarrow> string obj \<Rightarrow> exn + (string \<Rightarrow> jsExport)"
  loadTailwindConfig :: "vfs \<Rightarrow> string \<Rightarrow> exn + tailwindResult"
  base_notFound :: "string \<Rightarrow> responseData"
  base_serverError :: "exn \<Rightarrow> responseData"
  super_serveFile :: "vfs \<Rightarrow> string \<Rightarrow> responseData"
  isENOENT :: "exn \<Rightarrow> bool"

text \<open>The fields of \<open>NextDevServer\<close> that requests read.\<close>

record server =
  vfs :: vfs
  root :: string
  pagesDir :: string
  appDir :: string
  publicDir :: string
  useAppRouter :: bool
  assetPrefix :: string
  basePath :: string
  port :: nat
  env :: "string obj"

text \<open>\<open>error instanceof Error ? error.message : 'Internal Server Error'\<close>.\<close>

definition errorMessage :: "exn \<Rightarrow> string" where
  "errorMessage e = (case e of Some m \<Rightarrow> m | None \<Rightarrow> ''Internal Server Error'')"


section \<open>Legacy API routes\<close>

text \<open>\<open>resolveApiFile\<close>: \<open>/api/x\<close> is \<open><pagesDir>/api/x\<close> with an extension, or its index file.\<close>

definition resolveApiFile :: "server \<Rightarrow> string \<Rightarrow> string option" where
  "resolveApiFile srv pathname =
     (let apiPath = (if startsWith pathname ''/api''
                     then pagesDir srv @ ''/api'' @ drop 4 pathname else pathname);
          extensions = [''.js'', ''.ts'', ''.jsx'', ''.tsx'']
      in case find (exists (vfs srv)) (map (\<lambda>ext. apiPath @ ext) extensions) of
           Some filePath \<Rightarrow> Some filePath
         | None \<Rightarrow> find (exists (vfs srv)) (map (\<lambda>ext. apiPath @ ''/index'' @ ext) extensions))"

text \<open>\<open>parseCookies\<close>: the \<open>forEach\<close> over the \<open>;\<close>-separated parts.\<close>

fun parseCookiesLoop :: "host \<Rightarrow> string list \<Rightarrow> string obj \<Rightarrow> exn + string obj" where
  "parseCookiesLoop h [] cookies = Inr cookies"
| "parseCookiesLoop h (cookie # others) cookies =
     (case str_split (CHR ''='') (trim cookie) of
        name # value # _ \<Rightarrow>
          (if name \<noteq> [] \<and> value \<noteq> [] then
             (case decodeURIComponent h value of
                Inl e \<Rightarrow> Inl e
              | Inr v \<Rightarrow> parseCookiesLoop h others (obj_set cookies name v))
           else parseCookiesLoop h others cookies)
      | _ \<Rightarrow> parseCookiesLoop h others cookies)"

definition parseCookies :: "host \<Rightarrow> string \<Rightarrow> exn + string obj" where
  "parseCookies h cookieHeader =
     (if cookieHeader = [] then Inr []
      else parseCookiesLoop h (str_split (CHR '';'') cookieHeader) [])"

text \<open>
  \<open>createMockRequest(method, pathname, headers, body)\<close>: the query is read from the URL
  built from the \<open>pathname\<close> argument; \<open>JSON.parse\<close> and \<open>decodeURIComponent\<close> may throw.
\<close>

definition createMockRequest ::
  "host \<Rightarrow> string \<Rightarrow> string \<Rightarrow> headers \<Rightarrow> string option \<Rightarrow> exn + mockRequest" where
  "createMockRequest h method pathname hdrs body0 =
     (let u = parseURL h pathname;
          query = Object_fromEntries (url_searchParams u)
      in case (case body0 of None \<Rightarrow> Inr None
               | Some b \<Rightarrow> (case JSON_parse h b of Inl e \<Rightarrow> Inl e | Inr j \<Rightarrow> Inr (Some j))) of
           Inl e \<Rightarrow> Inl e
         | Inr parsed \<Rightarrow>
             (case parseCookies h (case map_of hdrs ''cookie'' of Some c \<Rightarrow> c | None \<Rightarrow> []) of
                Inl e \<Rightarrow> Inl e
              | Inr cookies \<Rightarrow>
                  Inr \<lparr>req_method = method, req_url = pathname, req_headers = hdrs,
                       req_query = query, req_body = parsed, req_cookies = cookies\<rparr>))"


section \<open>The streaming response\<close>

text \<open>The three callbacks of \<open>handleStreamingRequest\<close>, as the sequence of their calls.\<close>

datatype event = OnStart nat string headers | OnChunk string | OnEnd

text \<open>
  The closure of \<open>createStreamingMockResponse\<close>: its local variables and the calls
  made so far on the callbacks it captured, oldest first.
\<close>

record streamingResponse =
  s_statusCode :: nat
  s_statusMessage :: string
  s_headers :: headers
  s_ended :: bool
  s_headersSent :: bool
  s_calls :: "event list"

definition createStreamingMockResponse :: streamingResponse where
  "createStreamingMockResponse =
     \<lparr>s_statusCode = 200, s_statusMessage = ''OK'', s_headers = [], s_ended = False,
      s_headersSent = False, s_calls = []\<rparr>"

definition s_sendHeaders :: "streamingResponse \<Rightarrow> streamingResponse" where
  "s_sendHeaders r =
     (if \<not> s_headersSent r
      then r\<lparr>s_headersSent := True,
             s_calls := s_calls r @ [OnStart (s_statusCode r) (s_statusMessage r) (s_headers r)]\<rparr>
      else r)"

definition s_onChunk :: "string \<Rightarrow> streamingResponse \<Rightarrow> streamingResponse" where
  "s_onChunk d r = r\<lparr>s_calls := s_calls r @ [OnChunk d]\<rparr>"

definition s_markEnded :: "streamingResponse \<Rightarrow> streamingResponse" where
  "s_markEnded r =
     (if \<not> s_ended r
      then (let r1 = s_sendHeaders r in r1\<lparr>s_ended := True, s_calls := s_calls r1 @ [OnEnd]\<rparr>)
      else r)"

definition s_json :: "string \<Rightarrow> streamingResponse \<Rightarrow> streamingResponse" where
  "s_json text r =
     s_markEnded (s_onChunk text (s_sendHeaders
       (r\<lparr>s_headers := obj_set (s_headers r) ''Content-Type'' ''application/json; charset=utf-8''\<rparr>)))"

fun s_call :: "streamingResponse \<Rightarrow> resCall \<Rightarrow> streamingResponse" where
  "s_call r (Status code) = r\<lparr>s_statusCode := code\<rparr>"
| "s_call r (SetHeader name v) = r\<lparr>s_headers := obj_set (s_headers r) name v\<rparr>"
| "s_call r (GetHeader name) = r"
| "s_call r (Write chunk) = s_onChunk chunk (s_sendHeaders r)"
| "s_call r (Json text) = s_json text r"
| "s_call r (Send (SendObject text)) = s_json text r"
| "s_call r (Send (SendString d)) = s_markEnded (s_onChunk d (s_sendHeaders r))"
| "s_call r (End None) = s_markEnded r"
| "s_call r (End (Some d)) =
     (if d \<noteq> [] then s_markEnded (s_onChunk d (s_sendHeaders r)) else s_markEnded r)"
| "s_call r (Redirect (RedirectStatus code target)) =
     s_markEnded (r\<lparr>s_statusCode := code,
       s_headers := obj_set (s_headers r) ''Location''
         (case target of Some t \<Rightarrow> (if t = [] then ''/'' else t) | None \<Rightarrow> ''/'')\<rparr>)"
| "s_call r (Redirect (RedirectUrl target)) =
     s_markEnded (r\<lparr>s_statusCode := 307, s_headers := obj_set (s_headers r) ''Location'' target\<rparr>)"

text \<open>
  The wait \<open>Promise.race([res.waitForEnd(), timeout])\<close>: every call the handler makes until
  the dispatcher resumes reaches the response. Ending the response resolves the promise
  but does not stop the callback that ended it, and \<open>write\<close> does not look at \<open>ended\<close>, so
  the calls that follow in the same callback still reach \<open>onChunk\<close>.
\<close>

definition s_untilResumed :: "streamingResponse \<Rightarrow> resCall list \<Rightarrow> streamingResponse" where
  "s_untilResumed r calls = foldl s_call r calls"

text \<open>The \<open>catch\<close> block of \<open>handleStreamingRequest\<close>.\<close>

definition streamingCatch :: "exn \<Rightarrow> event list" where
  \<open>streamingCatch e =
     [OnStart 500 ''Internal Server Error'' [(''Content-Type'', ''application/json'')],
      OnChunk (JSON_stringify_record [(''error'', errorMessage e)]),
      OnEnd]\<close>

definition streamingTry :: "host \<Rightarrow> server \<Rightarrow> string \<Rightarrow> string \<Rightarrow> headers \<Rightarrow> string option
    \<Rightarrow> string \<Rightarrow> event list" where
  "streamingTry h srv method pathname hdrs body0 apiFile =
     (case readFileSync (vfs srv) apiFile of
        Inl e \<Rightarrow> streamingCatch e
      | Inr code \<Rightarrow>
     (case transformApiHandler h (vfs srv) code apiFile of
        Inl e \<Rightarrow> streamingCatch e
      | Inr transformed \<Rightarrow>
     (case createMockRequest h method pathname hdrs body0 of
        Inl e \<Rightarrow> streamingCatch e
      | Inr req \<Rightarrow>
         (let b = execute h transformed (env srv) req;
              r1 = foldl s_call createStreamingMockResponse (during b)
          in case outcome b of
               Throws e \<Rightarrow> s_calls r1 @ streamingCatch e
             | Returns \<Rightarrow>
                 (if s_ended r1 then s_calls r1
                  else (let r2 = s_untilResumed r1 (later b)
                        in if s_ended r2 then s_calls r2
                           else s_calls r2 @ streamingCatch (Some ''API handler timeout'')))))))"

text \<open>\<open>handleStreamingRequest\<close>: the calls made on \<open>onStart\<close>, \<open>onChunk\<close> and \<open>onEnd\<close>.\<close>

definition handleStreamingRequest ::
  "host \<Rightarrow> server \<Rightarrow> string \<Rightarrow> string \<Rightarrow> headers \<Rightarrow> string option \<Rightarrow> event list" where
  \<open>handleStreamingRequest h srv method u hdrs body0 =
     (let urlObj = parseURL h u; pathname = url_pathname urlObj
      in if \<not> startsWith pathname ''/api/'' then
           [OnStart 404 ''Not Found'' [(''Content-Type'', ''application/json'')],
            OnChunk (JSON_stringify_record [(''error'', ''Not found'')]),
            OnEnd]
         else (case resolveApiFile srv pathname of
                 None \<Rightarrow>
                   [OnStart 404 ''Not Found'' [(''Content-Type'', ''application/json'')],
                    OnChunk (JSON_stringify_record [(''error'', ''API route not found'')]),
                    OnEnd]
               | Some apiFile \<Rightarrow> streamingTry h srv method pathname hdrs body0 apiFile))\<close>


section \<open>Route resolution\<close>

text \<open>\<open>for (const x of xs) { const r = f(x); if (r) return r; }\<close> falling through to \<open>null\<close>.\<close>

fun firstSome :: "('a \<Rightarrow> 'b option) \<Rightarrow> 'a list \<Rightarrow> 'b option" where
  "firstSome f [] = None"
| "firstSome f (x # xs) = (case f x of Some y \<Rightarrow> Some y | None \<Rightarrow> firstSome f xs)"

text \<open>The extension order of the page resolvers.\<close>

definition extensions :: "string list" where
  "extensions = [''.jsx'', ''.tsx'', ''.js'', ''.ts'']"

text \<open>\<open>pathname.split('/').filter(Boolean)\<close>.\<close>

definition pathSegments :: "string \<Rightarrow> string list" where
  "pathSegments pathname = filter (\<lambda>s. s \<noteq> []) (str_split (CHR ''/'') pathname)"

text \<open>\<open>s.slice(a, -b)\<close>.\<close>

definition slice :: "nat \<Rightarrow> nat \<Rightarrow> string \<Rightarrow> string" where
  "slice a b s = take (length s - b - a) (drop a s)"

text \<open>\<open>current.replace(/\/[^/]+$/, '')\<close>: drop the last path component, if there is one.\<close>

definition dirnameOf :: "string \<Rightarrow> string" where
  "dirnameOf p =
     (let seg = takeWhile (\<lambda>c. c \<noteq> CHR ''/'') (rev p)
      in if seg \<noteq> [] \<and> length seg < length p then take (length p - length seg - 1) p else p)"

record appRoute =
  page :: string
  layouts :: "string list"
  params :: "param obj"
  loading :: "string option"
  error :: "string option"
  notFound :: "string option"

definition collectLayout :: "vfs \<Rightarrow> string \<Rightarrow> string list \<Rightarrow> string list" where
  "collectLayout fs dirPath lays =
     (case find (\<lambda>layoutPath. exists fs layoutPath \<and> layoutPath \<notin> set lays)
             (map (\<lambda>ext. dirPath @ ''/layout'' @ ext) extensions) of
        Some layoutPath \<Rightarrow> lays @ [layoutPath]
      | None \<Rightarrow> lays)"

definition findPage :: "vfs \<Rightarrow> string \<Rightarrow> string option" where
  "findPage fs dirPath = find (exists fs) (map (\<lambda>ext. dirPath @ ''/page'' @ ext) extensions)"

definition findConventionFile :: "vfs \<Rightarrow> string \<Rightarrow> string \<Rightarrow> string option" where
  "findConventionFile fs dirPath name =
     find (exists fs) (map (\<lambda>ext. dirPath @ ''/'' @ name @ ext) extensions)"

lemma dirnameOf_shorter: "dirnameOf p \<noteq> p \<Longrightarrow> length (dirnameOf p) < length p"
  by (auto simp: dirnameOf_def Let_def split: if_splits)

function findNearestConventionFile :: "vfs \<Rightarrow> string \<Rightarrow> string \<Rightarrow> string \<Rightarrow> string option" where
  "findNearestConventionFile fs appDirectory current name =
     (if \<not> startsWith current appDirectory then None
      else (case findConventionFile fs current name of
              Some file \<Rightarrow> Some file
            | None \<Rightarrow>
                (if dirnameOf current = current then None
                 else findNearestConventionFile fs appDirectory (dirnameOf current) name)))"
  by pat_completeness auto
termination
  by (relation "measure (\<lambda>(fs, a, current, name). length current)")
     (auto simp: dirnameOf_shorter)

declare findNearestConventionFile.simps [simp del]

text \<open>\<open>/^\([^)]+\)$/.test(e)\<close>: a route-group directory name.\<close>

definition isRouteGroup :: "string \<Rightarrow> bool" where
  "isRouteGroup e \<longleftrightarrow>
     (case e of
        [] \<Rightarrow> False
      | c # rest \<Rightarrow> c = CHR ''('' \<and> rest \<noteq> [] \<and> last rest = CHR '')'' \<and> butlast rest \<noteq> []
                 \<and> CHR '')'' \<notin> set (butlast rest))"

definition getRouteGroups :: "vfs \<Rightarrow> string \<Rightarrow> string list" where
  "getRouteGroups fs dirPath =
     (case readdirSync fs dirPath of
        None \<Rightarrow> []
      | Some entries \<Rightarrow> filter (\<lambda>e. isRouteGroup e \<and> isDirectory fs (dirPath @ ''/'' @ e)) entries)"

text \<open>
  The \<open>if / else if / else if\<close> chain that reads a directory entry as a catch-all
  \<open>[...name]\<close>, an optional catch-all \<open>[[...name]]\<close> or a single dynamic segment \<open>[name]\<close>,
  with the parameter name each branch slices out.
\<close>

datatype entryKind = CatchAllEntry string | OptionalCatchAllEntry string | DynamicEntry string | StaticEntry

definition classifyEntry :: "string \<Rightarrow> entryKind" where
  "classifyEntry entry =
     (if startsWith entry ''[...'' \<and> endsWith entry '']'' then CatchAllEntry (slice 4 1 entry)
      else if startsWith entry ''[[...'' \<and> endsWith entry '']]'' then OptionalCatchAllEntry (slice 5 2 entry)
      else if startsWith entry ''['' \<and> endsWith entry '']'' \<and> CHR ''.'' \<notin> set entry
        then DynamicEntry (slice 1 1 entry)
      else StaticEntry)"

definition mkRoute :: "vfs \<Rightarrow> string \<Rightarrow> string \<Rightarrow> string \<Rightarrow> string list \<Rightarrow> param obj \<Rightarrow> appRoute" where
  "mkRoute fs appDirectory dirPath pg lays pars =
     \<lparr>page = pg, layouts = lays, params = pars,
      loading = findNearestConventionFile fs appDirectory dirPath ''loading'',
      error = findNearestConventionFile fs appDirectory dirPath ''error'',
      notFound = findNearestConventionFile fs appDirectory dirPath ''not-found''\<rparr>"

text \<open>
  \<open>tryPath\<close> of \<open>resolveAppDynamicRoute\<close>. Every recursive call is on the rest of the
  segments or on none, so the walk ends.
\<close>

fun tryPath :: "vfs \<Rightarrow> string \<Rightarrow> string \<Rightarrow> string list \<Rightarrow> string list \<Rightarrow> param obj \<Rightarrow> appRoute option" where
  "tryPath fs appDirectory dirPath [] lays0 pars =
     (let lays = collectLayout fs dirPath lays0
      in case findPage fs dirPath of
           Some pg \<Rightarrow> Some (mkRoute fs appDirectory dirPath pg lays pars)
         | None \<Rightarrow>
             firstSome (\<lambda>group.
                 (let groupPath = dirPath @ ''/'' @ group;
                      groupLayouts = collectLayout fs groupPath lays
                  in case findPage fs groupPath of
                       Some pg \<Rightarrow> Some (mkRoute fs appDirectory groupPath pg groupLayouts pars)
                     | None \<Rightarrow> None))
               (getRouteGroups fs dirPath))"
| "tryPath fs appDirectory dirPath (current # rest) lays0 pars =
     (let lays = collectLayout fs dirPath lays0;
          exactPath = dirPath @ ''/'' @ current
      in case (if isDirectory fs exactPath
               then tryPath fs appDirectory exactPath rest lays pars else None) of
           Some result \<Rightarrow> Some result
         | None \<Rightarrow>
      (case firstSome (\<lambda>group.
                 (let groupPath = dirPath @ ''/'' @ group;
                      groupLayouts = collectLayout fs groupPath lays;
                      groupExactPath = groupPath @ ''/'' @ current
                  in case (if isDirectory fs groupExactPath
                           then tryPath fs appDirectory groupExactPath rest groupLayouts pars
                           else None) of
                       Some result \<Rightarrow> Some result
                     | None \<Rightarrow>
                         (case readdirSync fs groupPath of
                            None \<Rightarrow> None
                          | Some groupEntries \<Rightarrow>
                              firstSome (\<lambda>entry.
                                  (let dynamicPath = groupPath @ ''/'' @ entry
                                   in case classifyEntry entry of
                                        CatchAllEntry paramName \<Rightarrow>
                                          (if isDirectory fs dynamicPath
                                           then tryPath fs appDirectory dynamicPath [] groupLayouts
                                                  (obj_set pars paramName (CatchAll (current # rest)))
                                           else None)
                                      | OptionalCatchAllEntry paramName \<Rightarrow>
                                          (if isDirectory fs dynamicPath
                                           then tryPath fs appDirectory dynamicPath [] groupLayouts
                                                  (obj_set pars paramName (CatchAll (current # rest)))
                                           else None)
                                      | DynamicEntry paramName \<Rightarrow>
                                          (if isDirectory fs dynamicPath
                                           then tryPath fs appDirectory dynamicPath rest groupLayouts
                                                  (obj_set pars paramName (Single current))
                                           else None)
                                      | StaticEntry \<Rightarrow> None))
                                groupEntries)))
               (getRouteGroups fs dirPath) of
         Some result \<Rightarrow> Some result
       | None \<Rightarrow>
           (case readdirSync fs dirPath of
              None \<Rightarrow> None
            | Some entries \<Rightarrow>
                firstSome (\<lambda>entry.
                    (let dynamicPath = dirPath @ ''/'' @ entry
                     in case classifyEntry entry of
                          CatchAllEntry paramName \<Rightarrow>
                            (if isDirectory fs dynamicPath
                             then tryPath fs appDirectory dynamicPath [] lays
                                    (obj_set pars paramName (CatchAll (current # rest)))
                             else None)
                        | OptionalCatchAllEntry paramName \<Rightarrow>
                            (if isDirectory fs dynamicPath
                             then tryPath fs appDirectory dynamicPath [] lays
                                    (obj_set pars paramName (CatchAll (current # rest)))
                             else None)
                        | DynamicEntry paramName \<Rightarrow>
                            (if isDirectory fs dynamicPath
                             then tryPath fs appDirectory dynamicPath rest lays
                                    (obj_set pars paramName (Single current))
                             else None)
                        | StaticEntry \<Rightarrow> None))
                  entries)))"

text \<open>\<open>resolveAppDynamicRoute\<close>: the root layout is collected first, then the walk starts.\<close>

definition resolveAppDynamicRoute :: "server \<Rightarrow> string list \<Rightarrow> appRoute option" where
  "resolveAppDynamicRoute srv segments =
     (let lays = (case find (exists (vfs srv))
                         (map (\<lambda>ext. appDir srv @ ''/layout'' @ ext) extensions) of
                    Some rootLayout \<Rightarrow> [rootLayout]
                  | None \<Rightarrow> [])
      in tryPath (vfs srv) (appDir srv) (appDir srv) segments lays [])"

definition resolveAppRoute :: "server \<Rightarrow> string \<Rightarrow> appRoute option" where
  "resolveAppRoute srv pathname =
     resolveAppDynamicRoute srv (if pathname = ''/'' then [] else pathSegments pathname)"


section \<open>Transform cache\<close>

text \<open>
  The server's mutable fields: the transform cache (file path to transformed code and
  source hash) and the lazily loaded Tailwind configuration script.
\<close>

record cacheEntry =
  c_code :: string
  c_hash :: string

record serverState =
  transformCache :: "string \<Rightarrow> cacheEntry option"
  tailwindConfigScript :: string
  tailwindConfigLoaded :: bool

definition nl :: string where
  "nl = [CHR 0x0A]"

text \<open>\<open>/\.(jsx|tsx|ts)$/.test(path)\<close>.\<close>

definition needsTransform :: "string \<Rightarrow> bool" where
  "needsTransform path \<longleftrightarrow> endsWith path ''.jsx'' \<or> endsWith path ''.tsx'' \<or> endsWith path ''.ts''"

text \<open>
  \<open>transformAndServe\<close>: a cache entry with the hash of the bytes just read is served
  with \<open>X-Cache: hit\<close>; otherwise the transform runs and its result is stored. A failed
  read or transform is answered from the \<open>catch\<close> block and leaves the cache alone.
\<close>

definition transformError :: "exn \<Rightarrow> responseData" where
  "transformError e =
     (let message = (case e of Some m \<Rightarrow> m | None \<Rightarrow> ''Transform failed'')
      in \<lparr>statusCode = 200, statusMessage = ''OK'',
           res_headers = [(''Content-Type'', ''application/javascript; charset=utf-8''),
                          (''X-Transform-Error'', ''true'')],
           body = ''// Transform Error: '' @ message @ nl @
                  ''console.error('' @ JSON_quote message @ '');''\<rparr>)"

definition transformAndServe ::
  "host \<Rightarrow> server \<Rightarrow> serverState \<Rightarrow> string \<Rightarrow> string \<Rightarrow> responseData \<times> serverState" where
  "transformAndServe h srv st filePath urlPath =
     (case readFileSync (vfs srv) filePath of
        Inl e \<Rightarrow> (transformError e, st)
      | Inr content \<Rightarrow>
          (let hash = simpleHash h content
           in case (case transformCache st filePath of
                      Some cached \<Rightarrow> (if c_hash cached = hash then Some cached else None)
                    | None \<Rightarrow> None) of
                Some cached \<Rightarrow>
                  (\<lparr>statusCode = 200, statusMessage = ''OK'',
                    res_headers = [(''Content-Type'', ''application/javascript; charset=utf-8''),
                                   (''Content-Length'', String_of_nat (utf8Length (c_code cached))),
                                   (''Cache-Control'', ''no-cache''),
                                   (''X-Transformed'', ''true''),
                                   (''X-Cache'', ''hit'')],
                    body = c_code cached\<rparr>, st)
              | None \<Rightarrow>
                  (case transformCode h (vfs srv) content filePath of
                     Inl e \<Rightarrow> (transformError e, st)
                   | Inr transformed \<Rightarrow>
                       (\<lparr>statusCode = 200, statusMessage = ''OK'',
                         res_headers = [(''Content-Type'', ''application/javascript; charset=utf-8''),
                                        (''Content-Length'', String_of_nat (utf8Length transformed)),
                                        (''Cache-Control'', ''no-cache''),
                                        (''X-Transformed'', ''true'')],
                         body = transformed\<rparr>,
                        st\<lparr>transformCache :=
                             (transformCache st)(filePath \<mapsto> \<lparr>c_code = transformed, c_hash = hash\<rparr>)\<rparr>))))"


section \<open>The HTML shell\<close>

text \<open>
  The long constant texts of the source: three of the scripts placed in every document,
  the shim modules, and the inline module script of each document (the client-side
  router) as a function of the values spliced into it: the virtual prefix for the pages
  router; the virtual prefix, the JSON text of the route parameters, the pathname and the
  three convention-module paths for the app router.
\<close>

record templates =
  CORS_PROXY_SCRIPT :: string
  REACT_REFRESH_PREAMBLE :: string
  HMR_CLIENT_SCRIPT :: string
  NEXT_LINK_SHIM :: string
  NEXT_ROUTER_SHIM :: string
  NEXT_HEAD_SHIM :: string
  NEXT_NAVIGATION_SHIM :: string
  NEXT_IMAGE_SHIM :: string
  NEXT_DYNAMIC_SHIM :: string
  NEXT_SCRIPT_SHIM :: string
  NEXT_FONT_GOOGLE_SHIM :: string
  NEXT_FONT_LOCAL_SHIM :: string
  pagesRouterModule :: "string \<Rightarrow> string"
  appRouterModule :: "string \<Rightarrow> string \<Rightarrow> string \<Rightarrow> string \<Rightarrow> string \<Rightarrow> string \<Rightarrow> string"

definition TAILWIND_CDN_SCRIPT :: string where
  \<open>TAILWIND_CDN_SCRIPT = ''<script src="https://cdn.tailwindcss.com"></script>''\<close>

text \<open>
  \<open>generateEnvScript\<close>: the loop copies the entries of \<open>env\<close> whose key starts with
  \<open>NEXT_PUBLIC_\<close> into a fresh object, which is the only part of \<open>env\<close> written out.
\<close>

definition publicEnvVarsOf :: "string obj \<Rightarrow> string obj" where
  "publicEnvVarsOf environment =
     foldl (\<lambda>publicEnvVars (key, v).
              if startsWith key ''NEXT_PUBLIC_'' then obj_set publicEnvVars key v else publicEnvVars)
       [] environment"

definition generateEnvScript :: "server \<Rightarrow> string" where
  \<open>generateEnvScript srv =
     (let publicEnvVars = publicEnvVarsOf (env srv)
      in ''<script>'' @ nl @
        ''  // Environment variables (injected by NextDevServer)'' @ nl @
        ''  window.process = window.process || {};'' @ nl @
        ''  window.process.env = window.process.env || {};'' @ nl @
        ''  Object.assign(window.process.env, '' @ JSON_stringify_record publicEnvVars @ '');'' @ nl @
        ''  // Next.js config values'' @ nl @
        ''  window.__NEXT_BASE_PATH__ = '' @ JSON_quote (basePath srv) @ '';'' @ nl @
        ''</script>'')\<close>

definition loadTailwindConfigIfNeeded :: "host \<Rightarrow> server \<Rightarrow> serverState \<Rightarrow> string \<times> serverState" where
  "loadTailwindConfigIfNeeded h srv st =
     (if tailwindConfigLoaded st then (tailwindConfigScript st, st)
      else (let script = (case loadTailwindConfig h (vfs srv) (root srv) of
                            Inr result \<Rightarrow>
                              (if success result then configScript result
                               else if tw_error result \<noteq> None \<and> tw_error result \<noteq> Some []
                                 then [] else tailwindConfigScript st)
                          | Inl e \<Rightarrow> [])
            in (script, st\<lparr>tailwindConfigScript := script, tailwindConfigLoaded := True\<rparr>)))"

definition virtualPrefixOf :: "server \<Rightarrow> string" where
  "virtualPrefixOf srv = ''/__virtual__/'' @ String_of_nat (port srv)"

definition cssLinks :: "server \<Rightarrow> string list \<Rightarrow> string list" where
  \<open>cssLinks srv cssLocations =
     map (\<lambda>cssPath. ''<link rel="stylesheet" href="'' @ virtualPrefixOf srv @ cssPath @ ''">'')
       (filter (exists (vfs srv)) cssLocations)\<close>

text \<open>\<open>generatePageHtml\<close>: the document of the pages router.\<close>

definition generatePageHtml ::
  "host \<Rightarrow> templates \<Rightarrow> server \<Rightarrow> serverState \<Rightarrow> string \<Rightarrow> string \<Rightarrow> string \<times> serverState" where
  \<open>generatePageHtml h t srv st pageFile pathname =
     (let virtualPrefix = virtualPrefixOf srv;
          globalCssLinks = cssLinks srv [''/styles/globals.css'', ''/styles/global.css'', ''/app/globals.css''];
          envScript = generateEnvScript srv;
          (tailwindScript, st') = loadTailwindConfigIfNeeded h srv st
      in (''<!DOCTYPE html>'' @ nl @
        ''<html lang="en">'' @ nl @
        ''<head>'' @ nl @
        ''  <meta charset="UTF-8">'' @ nl @
        ''  <meta name="viewport" content="width=device-width, initial-scale=1.0">'' @ nl @
        ''  <base href="'' @ virtualPrefix @ ''/">'' @ nl @
        ''  <title>Next.js App</title>'' @ nl @
        ''  '' @ envScript @ nl @
        ''  '' @ TAILWIND_CDN_SCRIPT @ nl @
        ''  '' @ tailwindScript @ nl @
        ''  '' @ CORS_PROXY_SCRIPT t @ nl @
        ''  '' @ join (nl @ ''  '') globalCssLinks @ nl @
        ''  '' @ REACT_REFRESH_PREAMBLE t @ nl @
        ''  <script type="importmap">'' @ nl @
        ''  {'' @ nl @
        ''    "imports": {'' @ nl @
        ''      "react": "https://esm.sh/react@18.2.0?dev",'' @ nl @
        ''      "react/": "https://esm.sh/react@18.2.0&dev/",'' @ nl @
        ''      "react-dom": "https://esm.sh/react-dom@18.2.0?dev",'' @ nl @
        ''      "react-dom/": "https://esm.sh/react-dom@18.2.0&dev/",'' @ nl @
        ''      "react-dom/client": "https://esm.sh/react-dom@18.2.0/client?dev",'' @ nl @
        ''      "next/link": "'' @ virtualPrefix @ ''/_next/shims/link.js",'' @ nl @
        ''      "next/router": "'' @ virtualPrefix @ ''/_next/shims/router.js",'' @ nl @
        ''      "next/head": "'' @ virtualPrefix @ ''/_next/shims/head.js",'' @ nl @
        ''      "next/navigation": "'' @ virtualPrefix @ ''/_next/shims/navigation.js",'' @ nl @
        ''      "next/image": "'' @ virtualPrefix @ ''/_next/shims/image.js",'' @ nl @
        ''      "next/dynamic": "'' @ virtualPrefix @ ''/_next/shims/dynamic.js",'' @ nl @
        ''      "next/script": "'' @ virtualPrefix @ ''/_next/shims/script.js",'' @ nl @
        ''      "next/font/google": "'' @ virtualPrefix @ ''/_next/shims/font/google.js",'' @ nl @
        ''      "next/font/local": "'' @ virtualPrefix @ ''/_next/shims/font/local.js"'' @ nl @
        ''    }'' @ nl @
        ''  }'' @ nl @
        ''  </script>'' @ nl @
        ''  '' @ HMR_CLIENT_SCRIPT t @ nl @
        ''</head>'' @ nl @
        ''<body>'' @ nl @
        ''  <div id="__next"></div>'' @ nl @
        ''  <script type="module">'' @ nl @
        pagesRouterModule t virtualPrefix @ nl @
        ''  </script>'' @ nl @
        ''</body>'' @ nl @
        ''</html>'', st'))\<close>

text \<open>\<open>JSON.stringify(route.params)\<close>: a string, or an array of strings, per parameter.\<close>

definition JSON_stringify_params :: "param obj \<Rightarrow> string" where
  "JSON_stringify_params ps =
     ''{'' @ join '','' (map (\<lambda>(k, v). JSON_quote k @ '':'' @
        (case v of Single x \<Rightarrow> JSON_quote x
         | CatchAll xs \<Rightarrow> ''['' @ join '','' (map JSON_quote xs) @ '']'')) ps) @ ''}''"

text \<open>\<open>generateAppRouterHtml\<close>: the document of the app router.\<close>

definition generateAppRouterHtml ::
  "host \<Rightarrow> templates \<Rightarrow> server \<Rightarrow> serverState \<Rightarrow> appRoute \<Rightarrow> string \<Rightarrow> string \<times> serverState" where
  \<open>generateAppRouterHtml h t srv st route pathname =
     (let virtualPrefix = virtualPrefixOf srv;
          globalCssLinks = cssLinks srv [''/app/globals.css'', ''/styles/globals.css'', ''/styles/global.css''];
          loadingModulePath = (case loading route of Some f \<Rightarrow> virtualPrefix @ f | None \<Rightarrow> []);
          errorModulePath = (case error route of Some f \<Rightarrow> virtualPrefix @ f | None \<Rightarrow> []);
          notFoundModulePath = (case notFound route of Some f \<Rightarrow> virtualPrefix @ f | None \<Rightarrow> []);
          envScript = generateEnvScript srv;
          (tailwindScript, st') = loadTailwindConfigIfNeeded h srv st
      in (''<!DOCTYPE html>'' @ nl @
        ''<html lang="en">'' @ nl @
        ''<head>'' @ nl @
        ''  <meta charset="UTF-8">'' @ nl @
        ''  <meta name="viewport" content="width=device-width, initial-scale=1.0">'' @ nl @
        ''  <base href="'' @ virtualPrefix @ ''/">'' @ nl @
        ''  <title>Next.js App</title>'' @ nl @
        ''  '' @ envScript @ nl @
        ''  '' @ TAILWIND_CDN_SCRIPT @ nl @
        ''  '' @ tailwindScript @ nl @
        ''  '' @ CORS_PROXY_SCRIPT t @ nl @
        ''  '' @ join (nl @ ''  '') globalCssLinks @ nl @
        ''  '' @ REACT_REFRESH_PREAMBLE t @ nl @
        ''  <script type="importmap">'' @ nl @
        ''  {'' @ nl @
        ''    "imports": {'' @ nl @
        ''      "react": "https://esm.sh/react@18.2.0?dev",'' @ nl @
        ''      "react/": "https://esm.sh/react@18.2.0&dev/",'' @ nl @
        ''      "react-dom": "https://esm.sh/react-dom@18.2.0?dev",'' @ nl @
        ''      "react-dom/": "https://esm.sh/react-dom@18.2.0&dev/",'' @ nl @
        ''      "react-dom/client": "https://esm.sh/react-dom@18.2.0/client?dev",'' @ nl @
        ''      "convex/react": "https://esm.sh/convex@1.21.0/react?external=react",'' @ nl @
        ''      "convex/server": "https://esm.sh/convex@1.21.0/server",'' @ nl @
        ''      "convex/values": "https://esm.sh/convex@1.21.0/values",'' @ nl @
        ''      "convex/_generated/api": "'' @ virtualPrefix @ ''/convex/_generated/api.ts",'' @ nl @
        ''      "ai": "https://esm.sh/ai@4?external=react",'' @ nl @
        ''      "ai/react": "https://esm.sh/ai@4/react?external=react",'' @ nl @
        ''      "@ai-sdk/openai": "https://esm.sh/@ai-sdk/openai@1",'' @ nl @
        ''      "next/link": "'' @ virtualPrefix @ ''/_next/shims/link.js",'' @ nl @
        ''      "next/router": "'' @ virtualPrefix @ ''/_next/shims/router.js",'' @ nl @
        ''      "next/head": "'' @ virtualPrefix @ ''/_next/shims/head.js",'' @ nl @
        ''      "next/navigation": "'' @ virtualPrefix @ ''/_next/shims/navigation.js",'' @ nl @
        ''      "next/image": "'' @ virtualPrefix @ ''/_next/shims/image.js",'' @ nl @
        ''      "next/dynamic": "'' @ virtualPrefix @ ''/_next/shims/dynamic.js",'' @ nl @
        ''      "next/script": "'' @ virtualPrefix @ ''/_next/shims/script.js",'' @ nl @
        ''      "next/font/google": "'' @ virtualPrefix @ ''/_next/shims/font/google.js",'' @ nl @
        ''      "next/font/local": "'' @ virtualPrefix @ ''/_next/shims/font/local.js"'' @ nl @
        ''    }'' @ nl @
        ''  }'' @ nl @
        ''  </script>'' @ nl @
        ''  '' @ HMR_CLIENT_SCRIPT t @ nl @
        ''</head>'' @ nl @
        ''<body>'' @ nl @
        ''  <div id="__next"></div>'' @ nl @
        ''  <script type="module">'' @ nl @
        appRouterModule t virtualPrefix (JSON_stringify_params (params route)) pathname
          loadingModulePath errorModulePath notFoundModulePath @ nl @
        ''  </script>'' @ nl @
        ''</body>'' @ nl @
        ''</html>'', st'))\<close>

text \<open>\<open>serve404Page\<close>: the built-in 404 document.\<close>

definition serve404Page :: "server \<Rightarrow> responseData" where
  \<open>serve404Page srv =
     (let virtualPrefix = virtualPrefixOf srv;
          html = ''<!DOCTYPE html>'' @ nl @
        ''<html lang="en">'' @ nl @
        ''<head>'' @ nl @
        ''  <meta charset="UTF-8">'' @ nl @
        ''  <meta name="viewport" content="width=device-width, initial-scale=1.0">'' @ nl @
        ''  <base href="'' @ virtualPrefix @ ''/">'' @ nl @
        ''  <title>404 - Page Not Found</title>'' @ nl @
        ''  <style>'' @ nl @
        ''    body {'' @ nl @
        ''      font-family: -apple-system, BlinkMacSystemFont, '' @ [CHR 0x27] @ ''Segoe UI'' @ [CHR 0x27] @ '', Roboto, sans-serif;'' @ nl @
        ''      display: flex;'' @ nl @
        ''      flex-direction: column;'' @ nl @
        ''      align-items: center;'' @ nl @
        ''      justify-content: center;'' @ nl @
        ''      min-height: 100vh;'' @ nl @
        ''      margin: 0;'' @ nl @
        ''      background: #fafafa;'' @ nl @
        ''    }'' @ nl @
        ''    h1 { font-size: 48px; margin: 0; }'' @ nl @
        ''    p { color: #666; margin-top: 10px; }'' @ nl @
        ''    a { color: #0070f3; text-decoration: none; }'' @ nl @
        ''    a:hover { text-decoration: underline; }'' @ nl @
        ''  </style>'' @ nl @
        ''</head>'' @ nl @
        ''<body>'' @ nl @
        ''  <h1>404</h1>'' @ nl @
        ''  <p>This page could not be found.</p>'' @ nl @
        ''  <p><a href="/">Go back home</a></p>'' @ nl @
        ''</body>'' @ nl @
        ''</html>''
      in \<lparr>statusCode = 404, statusMessage = ''Not Found'',
           res_headers = [(''Content-Type'', ''text/html; charset=utf-8''),
                          (''Content-Length'', String_of_nat (utf8Length html))],
           body = html\<rparr>)\<close>


section \<open>Pages-router resolution and page routes\<close>

text \<open>\<open>/^\[([^\]]+)\]$/.test(s)\<close>.\<close>

definition dynamicFilePattern :: "string \<Rightarrow> bool" where
  "dynamicFilePattern s \<longleftrightarrow>
     (case s of
        [] \<Rightarrow> False
      | c # rest \<Rightarrow> c = CHR ''['' \<and> rest \<noteq> [] \<and> last rest = CHR '']'' \<and> butlast rest \<noteq> []
                 \<and> CHR '']'' \<notin> set (butlast rest))"

text \<open>\<open>s.replace(pat, rep)\<close> for a string pattern: the first occurrence only.\<close>

fun str_replace :: "string \<Rightarrow> string \<Rightarrow> string \<Rightarrow> string" where
  "str_replace pat rep [] = (if pat = [] then rep else [])"
| "str_replace pat rep (c # cs) =
     (if prefix pat (c # cs) then rep @ drop (length pat) (c # cs)
      else c # str_replace pat rep cs)"

text \<open>\<open>tryPath\<close> of \<open>resolveDynamicRoute\<close> (pages router).\<close>

fun pagesTryPath :: "vfs \<Rightarrow> string \<Rightarrow> string list \<Rightarrow> string option" where
  "pagesTryPath fs dirPath [] =
     find (exists fs) (map (\<lambda>ext. dirPath @ ''/index'' @ ext) extensions)"
| "pagesTryPath fs dirPath (current # rest) =
     (let exactPath = dirPath @ ''/'' @ current
      in case (if rest = [] then find (exists fs) (map (\<lambda>ext. exactPath @ ext) extensions)
               else None) of
           Some f \<Rightarrow> Some f
         | None \<Rightarrow>
      (case (if isDirectory fs exactPath then pagesTryPath fs exactPath rest else None) of
           Some exactResult \<Rightarrow> Some exactResult
         | None \<Rightarrow>
      (case readdirSync fs dirPath of
           None \<Rightarrow> None
         | Some entries \<Rightarrow>
             firstSome (\<lambda>entry.
                 (let filePath = dirPath @ ''/'' @ entry
                  in if list_ex (\<lambda>ext. endsWith entry ext
                                        \<and> dynamicFilePattern (str_replace ext [] entry)
                                        \<and> rest = [] \<and> exists fs filePath) extensions
                     then Some filePath
                     else (case (if startsWith entry ''['' \<and> endsWith entry '']''
                                     \<and> CHR ''.'' \<notin> set entry \<and> isDirectory fs filePath
                                 then pagesTryPath fs filePath rest else None) of
                             Some dynamicResult \<Rightarrow> Some dynamicResult
                           | None \<Rightarrow>
                               (if list_ex (\<lambda>ext. startsWith entry ''[...''
                                                  \<and> endsWith entry ('']'' @ ext)
                                                  \<and> exists fs filePath) extensions
                                then Some filePath else None))))
               entries)))"

definition resolveDynamicRoute :: "server \<Rightarrow> string \<Rightarrow> string option" where
  "resolveDynamicRoute srv pathname =
     (let segments = pathSegments pathname
      in if segments = [] then None else pagesTryPath (vfs srv) (pagesDir srv) segments)"

definition resolvePageFile :: "server \<Rightarrow> string \<Rightarrow> string option" where
  "resolvePageFile srv pathname0 =
     (let pathname = (if pathname0 = ''/'' then ''/index'' else pathname0)
      in case find (exists (vfs srv)) (map (\<lambda>ext. pagesDir srv @ pathname @ ext) extensions) of
           Some filePath \<Rightarrow> Some filePath
         | None \<Rightarrow>
      (case find (exists (vfs srv))
              (map (\<lambda>ext. pagesDir srv @ pathname @ ''/index'' @ ext) extensions) of
           Some filePath \<Rightarrow> Some filePath
         | None \<Rightarrow> resolveDynamicRoute srv pathname))"

definition htmlResponse :: "string \<Rightarrow> responseData" where
  "htmlResponse html =
     \<lparr>statusCode = 200, statusMessage = ''OK'',
      res_headers = [(''Content-Type'', ''text/html; charset=utf-8''),
                     (''Content-Length'', String_of_nat (utf8Length html)),
                     (''Cache-Control'', ''no-cache'')],
      body = html\<rparr>"

definition notFoundHtmlResponse :: "string \<Rightarrow> responseData" where
  "notFoundHtmlResponse html =
     \<lparr>statusCode = 404, statusMessage = ''Not Found'',
      res_headers = [(''Content-Type'', ''text/html; charset=utf-8'')],
      body = html\<rparr>"

definition handleAppRouterPage ::
  "host \<Rightarrow> templates \<Rightarrow> server \<Rightarrow> serverState \<Rightarrow> string \<Rightarrow> string \<Rightarrow> responseData \<times> serverState" where
  "handleAppRouterPage h t srv st pathname search =
     (case resolveAppRoute srv pathname of
        None \<Rightarrow>
          (case resolveAppRoute srv ''/not-found'' of
             Some notFoundRoute \<Rightarrow>
               (let (html, st') = generateAppRouterHtml h t srv st notFoundRoute ''/not-found''
                in (notFoundHtmlResponse html, st'))
           | None \<Rightarrow> (serve404Page srv, st))
      | Some route \<Rightarrow>
          (let (html, st') = generateAppRouterHtml h t srv st route pathname
           in (htmlResponse html, st')))"

definition handlePageRoute ::
  "host \<Rightarrow> templates \<Rightarrow> server \<Rightarrow> serverState \<Rightarrow> string \<Rightarrow> string \<Rightarrow> responseData \<times> serverState" where
  "handlePageRoute h t srv st pathname search =
     (if useAppRouter srv then handleAppRouterPage h t srv st pathname search
      else (case resolvePageFile srv pathname of
              None \<Rightarrow>
                (case resolvePageFile srv ''/404'' of
                   Some notFoundPage \<Rightarrow>
                     (let (html, st') = generatePageHtml h t srv st notFoundPage ''/404''
                      in (notFoundHtmlResponse html, st'))
                 | None \<Rightarrow> (serve404Page srv, st))
            | Some pageFile \<Rightarrow>
                (if needsTransform pathname then transformAndServe h srv st pageFile pathname
                 else (let (html, st') = generatePageHtml h t srv st pageFile pathname
                       in (htmlResponse html, st')))))"


section \<open>Legacy API routes, unary\<close>

text \<open>The closure of \<open>createMockResponse\<close>.\<close>

record mockResponse =
  m_statusCode :: nat
  m_statusMessage :: string
  m_headers :: headers
  m_responseBody :: string
  m_ended :: bool
  m_headersSent :: bool

definition createMockResponse :: mockResponse where
  "createMockResponse =
     \<lparr>m_statusCode = 200, m_statusMessage = ''OK'', m_headers = [], m_responseBody = [],
      m_ended = False, m_headersSent = False\<rparr>"

definition m_json :: "string \<Rightarrow> mockResponse \<Rightarrow> mockResponse" where
  "m_json text r =
     r\<lparr>m_headers := obj_set (m_headers r) ''Content-Type'' ''application/json; charset=utf-8'',
       m_responseBody := text, m_ended := True\<rparr>"

fun m_call :: "mockResponse \<Rightarrow> resCall \<Rightarrow> mockResponse" where
  "m_call r (Status code) = r\<lparr>m_statusCode := code\<rparr>"
| "m_call r (SetHeader name v) = r\<lparr>m_headers := obj_set (m_headers r) name v\<rparr>"
| "m_call r (GetHeader name) = r"
| "m_call r (Write chunk) = r\<lparr>m_headersSent := True, m_responseBody := m_responseBody r @ chunk\<rparr>"
| "m_call r (Json text) = m_json text r"
| "m_call r (Send (SendObject text)) = m_json text r"
| "m_call r (Send (SendString d)) = r\<lparr>m_responseBody := d, m_ended := True\<rparr>"
| "m_call r (End None) = r\<lparr>m_ended := True\<rparr>"
| "m_call r (End (Some d)) = r\<lparr>m_responseBody := m_responseBody r @ d, m_ended := True\<rparr>"
| "m_call r (Redirect (RedirectStatus code target)) =
     r\<lparr>m_statusCode := code,
       m_headers := obj_set (m_headers r) ''Location''
         (case target of Some t \<Rightarrow> (if t = [] then ''/'' else t) | None \<Rightarrow> ''/''),
       m_ended := True\<rparr>"
| "m_call r (Redirect (RedirectUrl target)) =
     r\<lparr>m_statusCode := 307, m_headers := obj_set (m_headers r) ''Location'' target,
       m_ended := True\<rparr>"

text \<open>
  The wait of \<open>handleApiRoute\<close>: every call the handler makes until the dispatcher resumes
  changes the response, also after the call that ended it; \<open>toResponse\<close> reads the status,
  headers and body as they are then.
\<close>

definition m_untilResumed :: "mockResponse \<Rightarrow> resCall list \<Rightarrow> mockResponse" where
  "m_untilResumed r calls = foldl m_call r calls"

definition toResponse :: "mockResponse \<Rightarrow> responseData" where
  "toResponse r =
     \<lparr>statusCode = m_statusCode r, statusMessage = m_statusMessage r,
      res_headers = obj_set (m_headers r) ''Content-Length'' (String_of_nat (utf8Length (m_responseBody r))),
      body = m_responseBody r\<rparr>"

text \<open>The 500 answer of the \<open>catch\<close> blocks of \<open>handleApiRoute\<close> and \<open>handleAppRouteHandler\<close>.\<close>

definition internalServerError :: "exn \<Rightarrow> responseData" where
  "internalServerError e =
     \<lparr>statusCode = 500, statusMessage = ''Internal Server Error'',
      res_headers = [(''Content-Type'', ''application/json; charset=utf-8'')],
      body = JSON_stringify_record [(''error'', errorMessage e)]\<rparr>"

definition handleApiRoute ::
  "host \<Rightarrow> server \<Rightarrow> string \<Rightarrow> string \<Rightarrow> headers \<Rightarrow> string option \<Rightarrow> responseData" where
  "handleApiRoute h srv method pathname hdrs body0 =
     (case resolveApiFile srv pathname of
        None \<Rightarrow>
          \<lparr>statusCode = 404, statusMessage = ''Not Found'',
           res_headers = [(''Content-Type'', ''application/json; charset=utf-8'')],
           body = JSON_stringify_record [(''error'', ''API route not found'')]\<rparr>
      | Some apiFile \<Rightarrow>
     (case readFileSync (vfs srv) apiFile of
        Inl e \<Rightarrow> internalServerError e
      | Inr code \<Rightarrow>
     (case transformApiHandler h (vfs srv) code apiFile of
        Inl e \<Rightarrow> internalServerError e
      | Inr transformed \<Rightarrow>
     (case createMockRequest h method pathname hdrs body0 of
        Inl e \<Rightarrow> internalServerError e
      | Inr req \<Rightarrow>
         (let b = execute h transformed (env srv) req;
              r1 = foldl m_call createMockResponse (during b)
          in case outcome b of
               Throws e \<Rightarrow> internalServerError e
             | Returns \<Rightarrow>
                 (if m_ended r1 then toResponse r1
                  else (let r2 = m_untilResumed r1 (later b)
                        in if m_ended r2 then toResponse r2
                           else internalServerError (Some ''API handler timeout''))))))))"


section \<open>App-router route handlers\<close>

text \<open>\<open>toUpperCase\<close> and \<open>toLowerCase\<close> on ASCII letters.\<close>

definition toUpperCase :: "string \<Rightarrow> string" where
  "toUpperCase s =
     map (\<lambda>c. if charBetween (CHR ''a'') (CHR ''z'') c then char_of (of_char c - (32::nat)) else c) s"

definition toLowerCase :: "string \<Rightarrow> string" where
  "toLowerCase s =
     map (\<lambda>c. if charBetween (CHR ''A'') (CHR ''Z'') c then char_of (of_char c + (32::nat)) else c) s"

definition routeExtensions :: "string list" where
  "routeExtensions = [''.ts'', ''.js'', ''.tsx'', ''.jsx'']"

definition findRoute :: "vfs \<Rightarrow> string \<Rightarrow> string option" where
  "findRoute fs dirPath = find (exists fs) (map (\<lambda>ext. dirPath @ ''/route'' @ ext) routeExtensions)"

text \<open>\<open>tryPath\<close> of \<open>resolveAppRouteHandlerDynamic\<close>.\<close>

fun routeTryPath :: "vfs \<Rightarrow> string \<Rightarrow> string list \<Rightarrow> string option" where
  "routeTryPath fs dirPath [] =
     (case findRoute fs dirPath of
        Some routePath \<Rightarrow> Some routePath
      | None \<Rightarrow>
          (case readdirSync fs dirPath of
             None \<Rightarrow> None
           | Some entries \<Rightarrow>
               firstSome (\<lambda>entry.
                   if isRouteGroup entry \<and> isDirectory fs (dirPath @ ''/'' @ entry)
                   then findRoute fs (dirPath @ ''/'' @ entry) else None)
                 entries))"
| "routeTryPath fs dirPath (current # rest) =
     (let exactPath = dirPath @ ''/'' @ current
      in case (if isDirectory fs exactPath then routeTryPath fs exactPath rest else None) of
           Some result \<Rightarrow> Some result
         | None \<Rightarrow>
             (case readdirSync fs dirPath of
                None \<Rightarrow> None
              | Some entries \<Rightarrow>
                  firstSome (\<lambda>entry.
                      (let groupExact = dirPath @ ''/'' @ entry @ ''/'' @ current;
                           dynamicPath = dirPath @ ''/'' @ entry
                       in case (if isRouteGroup entry \<and> isDirectory fs (dirPath @ ''/'' @ entry)
                                    \<and> isDirectory fs groupExact
                                then routeTryPath fs groupExact rest else None) of
                            Some result \<Rightarrow> Some result
                          | None \<Rightarrow>
                       (case (if startsWith entry ''['' \<and> endsWith entry '']''
                                  \<and> CHR ''.'' \<notin> set entry \<and> isDirectory fs dynamicPath
                              then routeTryPath fs dynamicPath rest else None) of
                            Some result \<Rightarrow> Some result
                          | None \<Rightarrow>
                              (if startsWith entry ''[...'' \<and> endsWith entry '']''
                                  \<and> isDirectory fs dynamicPath
                               then routeTryPath fs dynamicPath [] else None))))
                    entries))"

definition resolveAppRouteHandler :: "server \<Rightarrow> string \<Rightarrow> string option" where
  "resolveAppRouteHandler srv pathname =
     (let segments = (if pathname = ''/'' then [] else pathSegments pathname);
          dirPath = foldl (\<lambda>d segment. d @ ''/'' @ segment) (appDir srv) segments
      in case findRoute (vfs srv) dirPath of
           Some routePath \<Rightarrow> Some routePath
         | None \<Rightarrow> routeTryPath (vfs srv) (appDir srv) segments)"

definition isFunction :: "jsExport \<Rightarrow> bool" where
  "isFunction v = (case v of Function f \<Rightarrow> True | NotFunction truthy \<Rightarrow> False)"

text \<open>
  \<open>handleAppRouteHandler\<close>. The handler is
  \<open>module.exports[methodUpper] || module.exports[methodUpper.toLowerCase()]\<close>; unless it
  is a function the answer is 405. The web \<open>Request\<close> is given by its method, URL, headers
  and body (the constructor's own validation is not modelled).
\<close>

definition handleAppRouteHandler ::
  "host \<Rightarrow> server \<Rightarrow> string \<Rightarrow> string \<Rightarrow> headers \<Rightarrow> string option \<Rightarrow> string \<Rightarrow> string
     \<Rightarrow> responseData" where
  "handleAppRouteHandler h srv method pathname hdrs body0 routeFile search =
     (case readFileSync (vfs srv) routeFile of
        Inl e \<Rightarrow> internalServerError e
      | Inr code \<Rightarrow>
     (case transformApiHandler h (vfs srv) code routeFile of
        Inl e \<Rightarrow> internalServerError e
      | Inr transformed \<Rightarrow>
     (case evaluateModule h transformed (env srv) of
        Inl e \<Rightarrow> internalServerError e
      | Inr exports \<Rightarrow>
         (let methodUpper = toUpperCase method;
              handler = (case exports methodUpper of
                           Function f \<Rightarrow> Function f
                         | NotFunction truthy \<Rightarrow>
                             (if truthy then NotFunction truthy
                              else exports (toLowerCase methodUpper)))
          in case handler of
               NotFunction truthy \<Rightarrow>
                 \<lparr>statusCode = 405, statusMessage = ''Method Not Allowed'',
                  res_headers = [(''Content-Type'', ''application/json; charset=utf-8'')],
                  body = JSON_stringify_record [(''error'', ''Method '' @ method @ '' not allowed'')]\<rparr>
             | Function f \<Rightarrow>
                 (let request = \<lparr>w_method = methodUpper,
                                 w_url = ''http://localhost'' @ pathname @ search,
                                 w_headers = hdrs,
                                 w_body = (if body0 \<noteq> None \<and> methodUpper \<noteq> ''GET''
                                               \<and> methodUpper \<noteq> ''HEAD'' then body0 else None)\<rparr>;
                      ps = (case resolveAppRoute srv pathname of
                              Some route \<Rightarrow> params route | None \<Rightarrow> [])
                  in case f request ps of
                       HandlerThrew e \<Rightarrow> internalServerError e
                     | WebResponse status statusText respHeaders respBody \<Rightarrow>
                         \<lparr>statusCode = status,
                          statusMessage = (if statusText = [] then ''OK'' else statusText),
                          res_headers = respHeaders, body = respBody\<rparr>
                     | PlainObject text \<Rightarrow>
                         \<lparr>statusCode = 200, statusMessage = ''OK'',
                          res_headers = [(''Content-Type'', ''application/json; charset=utf-8'')],
                          body = text\<rparr>
                     | OtherValue text \<Rightarrow>
                         \<lparr>statusCode = 200, statusMessage = ''OK'',
                          res_headers = [(''Content-Type'', ''text/plain; charset=utf-8'')],
                          body = text\<rparr>)))))"


section \<open>The request dispatcher\<close>

definition okJavascript :: "string \<Rightarrow> responseData" where
  "okJavascript code =
     \<lparr>statusCode = 200, statusMessage = ''OK'',
      res_headers = [(''Content-Type'', ''application/javascript; charset=utf-8''),
                     (''Content-Length'', String_of_nat (utf8Length code)),
                     (''Cache-Control'', ''no-cache'')],
      body = code\<rparr>"

definition serveNextShim :: "host \<Rightarrow> templates \<Rightarrow> string \<Rightarrow> responseData" where
  "serveNextShim h t pathname =
     (let shimName = str_replace ''.js'' [] (str_replace ''/_next/shims/'' [] pathname)
      in if shimName = ''link'' then okJavascript (NEXT_LINK_SHIM t)
         else if shimName = ''router'' then okJavascript (NEXT_ROUTER_SHIM t)
         else if shimName = ''head'' then okJavascript (NEXT_HEAD_SHIM t)
         else if shimName = ''navigation'' then okJavascript (NEXT_NAVIGATION_SHIM t)
         else if shimName = ''image'' then okJavascript (NEXT_IMAGE_SHIM t)
         else if shimName = ''dynamic'' then okJavascript (NEXT_DYNAMIC_SHIM t)
         else if shimName = ''script'' then okJavascript (NEXT_SCRIPT_SHIM t)
         else if shimName = ''font/google'' then okJavascript (NEXT_FONT_GOOGLE_SHIM t)
         else if shimName = ''font/local'' then okJavascript (NEXT_FONT_LOCAL_SHIM t)
         else base_notFound h pathname)"

definition serveRouteInfo :: "server \<Rightarrow> string \<Rightarrow> responseData" where
  \<open>serveRouteInfo srv pathname =
     (let json = (case resolveAppRoute srv pathname of
                    Some route \<Rightarrow> ''{"params":'' @ JSON_stringify_params (params route) @ '',"found":true}''
                  | None \<Rightarrow> ''{"params":{},"found":false}'')
      in \<lparr>statusCode = 200, statusMessage = ''OK'',
           res_headers = [(''Content-Type'', ''application/json; charset=utf-8''),
                          (''Content-Length'', String_of_nat (utf8Length json)),
                          (''Cache-Control'', ''no-cache'')],
           body = json\<rparr>)\<close>

text \<open>\<open>resolvePath\<close> and the overridden \<open>serveFile\<close>, which wraps JSON files as modules.\<close>

definition resolvePath :: "server \<Rightarrow> string \<Rightarrow> string" where
  "resolvePath srv urlPath =
     (let p0 = hd (str_split (CHR ''#'') (hd (str_split (CHR ''?'') urlPath)));
          p1 = (if startsWith p0 ''/'' then p0 else ''/'' @ p0)
      in if root srv \<noteq> ''/'' then root srv @ p1 else p1)"

definition serveFile :: "host \<Rightarrow> server \<Rightarrow> string \<Rightarrow> responseData" where
  "serveFile h srv filePath =
     (if endsWith filePath ''.json'' then
        (case readFileSync (vfs srv) (resolvePath srv filePath) of
           Inr jsonContent \<Rightarrow> okJavascript (''export default '' @ jsonContent @ '';'')
         | Inl e \<Rightarrow> (if isENOENT h e then base_notFound h filePath else base_serverError h e))
      else super_serveFile h (vfs srv) filePath)"

definition serveStaticAsset :: "host \<Rightarrow> server \<Rightarrow> string \<Rightarrow> responseData" where
  "serveStaticAsset h srv pathname =
     (let filePath = str_replace ''/_next/static/'' ''/'' pathname
      in if exists (vfs srv) filePath then serveFile h srv filePath else base_notFound h pathname)"

text \<open>\<open>s.replace(/\.js$/, '')\<close>.\<close>

definition dropJsSuffix :: "string \<Rightarrow> string" where
  "dropJsSuffix s = (if endsWith s ''.js'' then take (length s - 3) s else s)"

definition servePageComponent ::
  "host \<Rightarrow> server \<Rightarrow> serverState \<Rightarrow> string \<Rightarrow> responseData \<times> serverState" where
  "servePageComponent h srv st pathname =
     (case resolvePageFile srv (dropJsSuffix (str_replace ''/_next/pages'' [] pathname)) of
        None \<Rightarrow> (base_notFound h pathname, st)
      | Some pageFile \<Rightarrow> transformAndServe h srv st pageFile pageFile)"

definition serveAppComponent ::
  "host \<Rightarrow> server \<Rightarrow> serverState \<Rightarrow> string \<Rightarrow> responseData \<times> serverState" where
  "serveAppComponent h srv st pathname =
     (let filePath = dropJsSuffix (str_replace ''/_next/app'' [] pathname)
      in case find (exists (vfs srv)) (map (\<lambda>ext. filePath @ ext) [''.tsx'', ''.jsx'', ''.ts'', ''.js'']) of
           Some fullPath \<Rightarrow> transformAndServe h srv st fullPath fullPath
         | None \<Rightarrow> (base_notFound h pathname, st))"

text \<open>\<open>/\.\w+$/.test(pathname)\<close>.\<close>

definition isWordChar :: "char \<Rightarrow> bool" where
  "isWordChar c \<longleftrightarrow>
     (charBetween (CHR ''a'') (CHR ''z'') c) \<or> (charBetween (CHR ''A'') (CHR ''Z'') c)
     \<or> (charBetween (CHR ''0'') (CHR ''9'') c) \<or> c = CHR ''_''"

definition hasExtension :: "string \<Rightarrow> bool" where
  "hasExtension pathname \<longleftrightarrow>
     (let w = takeWhile isWordChar (rev pathname)
      in w \<noteq> [] \<and> startsWith (drop (length w) (rev pathname)) ''.'')"

definition resolveFileWithExtension :: "server \<Rightarrow> string \<Rightarrow> string option" where
  "resolveFileWithExtension srv pathname =
     (if hasExtension pathname \<and> exists (vfs srv) pathname then Some pathname
      else (case find (exists (vfs srv))
                   (map (\<lambda>ext. pathname @ ext) [''.tsx'', ''.ts'', ''.jsx'', ''.js'']) of
              Some withExt \<Rightarrow> Some withExt
            | None \<Rightarrow>
                find (exists (vfs srv))
                  (map (\<lambda>ext. pathname @ ''/index'' @ ext) [''.tsx'', ''.ts'', ''.jsx'', ''.js''])))"

text \<open>
  The three stripping steps at the head of \<open>handleRequest\<close>, in the order the source
  applies them: the virtual prefix \<open>/^\/__virtual__\/\d+/\<close>, then \<open>assetPrefix\<close> (with the
  double slash that concatenation leaves), then \<open>basePath\<close>. Each is applied once.
\<close>

definition stripVirtualPrefix :: "string \<Rightarrow> string" where
  "stripVirtualPrefix pathname =
     (let ds = takeWhile isDigit (drop 13 pathname)
      in if startsWith pathname ''/__virtual__/'' \<and> ds \<noteq> []
         then (let rest = drop (13 + length ds) pathname in if rest = [] then ''/'' else rest)
         else pathname)"

definition stripAssetPrefix :: "server \<Rightarrow> string \<Rightarrow> string" where
  "stripAssetPrefix srv pathname =
     (if assetPrefix srv \<noteq> [] \<and> startsWith pathname (assetPrefix srv)
      then (let rest = drop (length (assetPrefix srv)) pathname
            in if rest = [] \<or> startsWith rest ''/''
               then (let p1 = (if rest = [] then ''/'' else rest)
                     in if startsWith p1 ''//'' then drop 1 p1 else p1)
               else pathname)
      else pathname)"

definition stripBasePath :: "server \<Rightarrow> string \<Rightarrow> string" where
  "stripBasePath srv pathname =
     (if basePath srv \<noteq> [] \<and> startsWith pathname (basePath srv)
      then (let rest = drop (length (basePath srv)) pathname
            in if rest = [] \<or> startsWith rest ''/''
               then (if rest = [] then ''/'' else rest)
               else pathname)
      else pathname)"

text \<open>\<open>handleRequest\<close>: the response and the server state it leaves.\<close>

definition handleRequest ::
  "host \<Rightarrow> templates \<Rightarrow> server \<Rightarrow> serverState \<Rightarrow> string \<Rightarrow> string \<Rightarrow> headers \<Rightarrow> string option
     \<Rightarrow> responseData \<times> serverState" where
  "handleRequest h t srv st method u hdrs body0 =
     (let urlObj = parseURL h u;
          pathname = stripBasePath srv (stripAssetPrefix srv (stripVirtualPrefix (url_pathname urlObj)))
      in if startsWith pathname ''/_next/shims/'' then (serveNextShim h t pathname, st)
         else if pathname = ''/_next/route-info'' then
           (serveRouteInfo srv
              (case map_of (url_searchParams urlObj) ''pathname'' of
                 Some v \<Rightarrow> (if v = [] then ''/'' else v) | None \<Rightarrow> ''/''), st)
         else if startsWith pathname ''/_next/pages/'' then servePageComponent h srv st pathname
         else if startsWith pathname ''/_next/app/'' then serveAppComponent h srv st pathname
         else if startsWith pathname ''/_next/static/'' then (serveStaticAsset h srv pathname, st)
         else (case (if useAppRouter srv then resolveAppRouteHandler srv pathname else None) of
                 Some appRouteFile \<Rightarrow>
                   (handleAppRouteHandler h srv method pathname hdrs body0 appRouteFile
                      (url_search urlObj), st)
               | None \<Rightarrow>
                   (if startsWith pathname ''/api/'' then
                      (handleApiRoute h srv method pathname hdrs body0, st)
                    else if exists (vfs srv) (publicDir srv @ pathname)
                            \<and> \<not> isDirectory (vfs srv) (publicDir srv @ pathname) then
                      (serveFile h srv (publicDir srv @ pathname), st)
                    else if needsTransform pathname \<and> exists (vfs srv) pathname then
                      transformAndServe h srv st pathname pathname
                    else (case resolveFileWithExtension srv pathname of
                            Some resolvedFile \<Rightarrow>
                              (if needsTransform resolvedFile
                               then transformAndServe h srv st resolvedFile pathname
                               else (serveFile h srv resolvedFile, st))
                          | None \<Rightarrow>
                              (if exists (vfs srv) pathname \<and> \<not> isDirectory (vfs srv) pathname
                               then (serveFile h srv pathname, st)
                               else handlePageRoute h t srv st pathname (url_search urlObj))))))"


section \<open>Concrete hosts for worked examples\<close>

text \<open>
  A reading of \<open>new URL(u, 'http://localhost')\<close> for a path-absolute \<open>u\<close> that needs no
  percent-encoding and has no dot segments: the fragment starts at the first \<open>#\<close>, the
  query at the first \<open>?\<close> before it, and \<open>search\<close> is empty when the query is.
\<close>

definition parseQuery :: "string \<Rightarrow> (string \<times> string) list" where
  "parseQuery q =
     map (\<lambda>part. (takeWhile (\<lambda>c. c \<noteq> CHR ''='') part,
                  drop (Suc (length (takeWhile (\<lambda>c. c \<noteq> CHR ''='') part))) part))
       (filter (\<lambda>part. part \<noteq> []) (str_split (CHR ''&'') q))"

definition simpleURL :: "string \<Rightarrow> url" where
  "simpleURL u =
     (let noHash = takeWhile (\<lambda>c. c \<noteq> CHR ''#'') u;
          p = takeWhile (\<lambda>c. c \<noteq> CHR ''?'') noHash;
          q = drop (Suc (length p)) noHash
      in \<lparr>url_pathname = p, url_search = (if q = [] then [] else CHR ''?'' # q),
           url_searchParams = parseQuery q\<rparr>)"

text \<open>
  Modelled from the spec: the virtual file system (its implementation is not among the
  sources), read through the interface of section 6. A file system holding exactly the
  given files: a directory exists when a file lies below it, and \<open>readdirSync\<close> lists the
  children in the order their first file was written.
\<close>

definition mkVFS :: "(string \<times> string) list \<Rightarrow> vfs" where
  "mkVFS files =
     \<lparr>exists = (\<lambda>p. list_ex (\<lambda>f. fst f = p \<or> prefix (p @ ''/'') (fst f)) files),
      isDirectory = (\<lambda>p. list_ex (\<lambda>f. prefix (p @ ''/'') (fst f)) files),
      readdirSync = (\<lambda>p.
        if list_ex (\<lambda>f. prefix (p @ ''/'') (fst f)) files
        then Some (remdups (map (\<lambda>f. takeWhile (\<lambda>c. c \<noteq> CHR ''/'') (drop (Suc (length p)) (fst f)))
                     (filter (\<lambda>f. prefix (p @ ''/'') (fst f)) files)))
        else None),
      readFileSync = (\<lambda>p. case map_of files p of Some c \<Rightarrow> Inr c
                          | None \<Rightarrow> Inl (Some (''ENOENT: no such file or directory, open '' @ p)))\<rparr>"

text \<open>
  A host whose transforms return the code unchanged and whose evaluator runs the given
  handler behaviour whatever the code. Modelled from the spec: the base class's
  \<open>notFound\<close>, \<open>serverError\<close> and \<open>serveFile\<close> (the base class is not among the sources)
  answer 404, 500 and 200 with the file's bytes.
\<close>

definition hostRunning :: "(mockRequest \<Rightarrow> behaviour) \<Rightarrow> host" where
  "hostRunning handler =
     \<lparr>parseURL = simpleURL, JSON_parse = (\<lambda>s. Inr JNull), decodeURIComponent = Inr,
      simpleHash = id, transformCode = (\<lambda>fs code file. Inr code),
      transformApiHandler = (\<lambda>fs code file. Inr code),
      execute = (\<lambda>code e req. handler req),
      evaluateModule = (\<lambda>code e. Inr (\<lambda>name. NotFunction False)),
      loadTailwindConfig = (\<lambda>fs r. Inr \<lparr>success = False, configScript = [], tw_error = None\<rparr>),
      base_notFound = (\<lambda>p. \<lparr>statusCode = 404, statusMessage = ''Not Found'',
        res_headers = [(''Content-Type'', ''text/plain; charset=utf-8'')], body = ''Not found: '' @ p\<rparr>),
      base_serverError = (\<lambda>e. \<lparr>statusCode = 500, statusMessage = ''Internal Server Error'',
        res_headers = [(''Content-Type'', ''text/plain; charset=utf-8'')], body = errorMessage e\<rparr>),
      super_serveFile = (\<lambda>fs p. case readFileSync fs p of
          Inr content \<Rightarrow> \<lparr>statusCode = 200, statusMessage = ''OK'',
            res_headers = [(''Content-Length'', String_of_nat (utf8Length content))], body = content\<rparr>
        | Inl e \<Rightarrow> \<lparr>statusCode = 404, statusMessage = ''Not Found'',
            res_headers = [(''Content-Type'', ''text/plain; charset=utf-8'')], body = ''Not found: '' @ p\<rparr>),
      isENOENT = (\<lambda>e. True)\<rparr>"

definition noTemplates :: templates where
  "noTemplates =
     \<lparr>CORS_PROXY_SCRIPT = [], REACT_REFRESH_PREAMBLE = [], HMR_CLIENT_SCRIPT = [],
      NEXT_LINK_SHIM = [], NEXT_ROUTER_SHIM = [], NEXT_HEAD_SHIM = [], NEXT_NAVIGATION_SHIM = [],
      NEXT_IMAGE_SHIM = [], NEXT_DYNAMIC_SHIM = [], NEXT_SCRIPT_SHIM = [],
      NEXT_FONT_GOOGLE_SHIM = [], NEXT_FONT_LOCAL_SHIM = [],
      pagesRouterModule = (\<lambda>v. []), appRouterModule = (\<lambda>v ps p l e n. [])\<rparr>"

text \<open>A server that has served nothing yet.\<close>

definition initialState :: serverState where
  "initialState =
     \<lparr>transformCache = (\<lambda>f. None), tailwindConfigScript = [], tailwindConfigLoaded = False\<rparr>"

definition serverOn :: "vfs \<Rightarrow> server" where
  "serverOn fs =
     \<lparr>vfs = fs, root = ''/'', pagesDir = ''/pages'', appDir = ''/app'', publicDir = ''/public'',
      useAppRouter = False, assetPrefix = [], basePath = [], port = 3001, env = []\<rparr>"


section \<open>Properties of the streaming dispatcher\<close>

lemma stringify_error_Not_found:
  \<open>JSON_stringify_record [(''error'', ''Not found'')] = ''{"error":"Not found"}''\<close>
  by (simp add: JSON_stringify_record_def JSON_quote_def JSON_escape_def)

text \<open>
  Claim C10. \<open>handleStreamingRequest\<close> looks at the parsed pathname as it is: whatever the
  server's \<open>assetPrefix\<close> and \<open>basePath\<close>, and whatever the file system holds, a pathname
  that does not begin with \<open>/api/\<close> (a page, a shim, a static asset, or an API path still
  behind a virtual, asset or base prefix) gets \<open>onStart(404, 'Not Found', \<dots>)\<close>, one chunk
  with the JSON text of \<open>{ error: 'Not found' }\<close>, and \<open>onEnd()\<close>.
\<close>

theorem C10_streaming_serves_only_api_paths:
  \<open>\<not> startsWith (url_pathname (parseURL h u)) ''/api/'' \<Longrightarrow>
     handleStreamingRequest h srv method u hdrs body0 =
       [OnStart 404 ''Not Found'' [(''Content-Type'', ''application/json'')],
        OnChunk ''{"error":"Not found"}'',
        OnEnd]\<close>
  by (simp add: handleStreamingRequest_def Let_def stringify_error_Not_found)


definition endsAtOnce :: "mockRequest \<Rightarrow> behaviour" where
  "endsAtOnce req = \<lparr>during = [End None], outcome = Returns, later = []\<rparr>"

theorem C10_streaming_serves_only_api_paths_witness:
  \<open>\<not> startsWith (url_pathname (parseURL (hostRunning endsAtOnce) ''/docs/api/hello'')) ''/api/'' \<and>
   handleStreamingRequest (hostRunning endsAtOnce)
       ((serverOn (mkVFS [(''/pages/api/hello.js'', ''x'')]))\<lparr>basePath := ''/docs''\<rparr>)
       ''GET'' ''/docs/api/hello'' [] None =
     [OnStart 404 ''Not Found'' [(''Content-Type'', ''application/json'')],
      OnChunk ''{"error":"Not found"}'',
      OnEnd]\<close>
  using C10_streaming_serves_only_api_paths
    [of "hostRunning endsAtOnce" "''/docs/api/hello''"
        "(serverOn (mkVFS [(''/pages/api/hello.js'', ''x'')]))\<lparr>basePath := ''/docs''\<rparr>"
        "''GET''" "[]" None]
  by (simp add: hostRunning_def simpleURL_def startsWith_def)

text \<open>
  The order the streaming callbacks are promised in: one \<open>onStart\<close>, first; then chunks
  only; one \<open>onEnd\<close>, last.
\<close>

fun wellFormedStream :: "event list \<Rightarrow> bool" where
  "wellFormedStream (OnStart code msg hs # rest) =
     (rest \<noteq> [] \<and> last rest = OnEnd \<and>
      list_all (\<lambda>e. case e of OnChunk d \<Rightarrow> True | _ \<Rightarrow> False) (butlast rest))"
| "wellFormedStream _ = False"

text \<open>\<open>res.write('A'); throw new Error('boom')\<close> and \<open>res.end(); res.write('late')\<close>.\<close>

definition writesThenThrows :: "mockRequest \<Rightarrow> behaviour" where
  "writesThenThrows req = \<lparr>during = [Write ''A''], outcome = Throws (Some ''boom''), later = []\<rparr>"

definition endsThenWrites :: "mockRequest \<Rightarrow> behaviour" where
  "endsThenWrites req = \<lparr>during = [End None, Write ''late''], outcome = Returns, later = []\<rparr>"

lemmas streaming_eval =
  handleStreamingRequest_def hostRunning_def simpleURL_def startsWith_def serverOn_def mkVFS_def
  resolveApiFile_def streamingTry_def createMockRequest_def Object_fromEntries_def parseQuery_def
  parseCookies_def createStreamingMockResponse_def s_sendHeaders_def s_onChunk_def s_markEnded_def
  streamingCatch_def errorMessage_def JSON_stringify_record_def JSON_quote_def JSON_escape_def Let_def

text \<open>
  Claim C4 (the code departs from it). The response object guards \<open>onStart\<close> and \<open>onEnd\<close>
  with \<open>headersSent\<close> and \<open>ended\<close>, but the \<open>catch\<close> block of \<open>handleStreamingRequest\<close> calls
  \<open>onStart\<close>, \<open>onChunk\<close> and \<open>onEnd\<close> without consulting them, and \<open>write\<close> does not look at
  \<open>ended\<close>. A handler that writes a chunk and then throws makes \<open>onStart\<close> run twice; a
  handler that writes after \<open>end\<close> makes a chunk follow \<open>onEnd\<close>.
\<close>

theorem C4_streaming_callbacks_after_a_throw:
  \<open>handleStreamingRequest (hostRunning writesThenThrows)
       (serverOn (mkVFS [(''/pages/api/stream.js'', ''x'')])) ''GET'' ''/api/stream'' [] None =
     [OnStart 200 ''OK'' [], OnChunk ''A'',
      OnStart 500 ''Internal Server Error'' [(''Content-Type'', ''application/json'')],
      OnChunk ''{"error":"boom"}'', OnEnd]
   \<and> \<not> wellFormedStream (handleStreamingRequest (hostRunning writesThenThrows)
       (serverOn (mkVFS [(''/pages/api/stream.js'', ''x'')])) ''GET'' ''/api/stream'' [] None)
   \<and> handleStreamingRequest (hostRunning endsThenWrites)
       (serverOn (mkVFS [(''/pages/api/stream.js'', ''x'')])) ''GET'' ''/api/stream'' [] None =
     [OnStart 200 ''OK'' [], OnEnd, OnChunk ''late'']\<close>
  by (simp add: streaming_eval writesThenThrows_def endsThenWrites_def)


section \<open>Properties of the app-router resolver\<close>

definition appServer :: "(string \<times> string) list \<Rightarrow> server" where
  "appServer files = (serverOn (mkVFS files))\<lparr>useAppRouter := True\<rparr>"

text \<open>
  Claim C7 (the code departs from it). The walk has a branch of its own for optional
  catch-all directories \<open>[[...name]]\<close>, but only where a segment is still to be consumed;
  once the segments are exhausted \<open>tryPath\<close> looks for a page in the directory and in its
  route groups only. With \<open>/app/docs/[[...slug]]/page.tsx\<close> alone, \<open>/docs\<close> does not
  resolve, while \<open>/docs/a\<close> does: the optional catch-all behaves as a plain catch-all.
\<close>

theorem C7_optional_catch_all_needs_a_segment:
  "resolveAppRoute (appServer [(''/app/docs/[[...slug]]/page.tsx'', ''P'')]) ''/docs'' = None
   \<and> resolveAppRoute (appServer [(''/app/docs/[[...slug]]/page.tsx'', ''P'')]) ''/docs/a'' =
       Some \<lparr>page = ''/app/docs/[[...slug]]/page.tsx'', layouts = [],
             params = [(''slug'', CatchAll [''a''])],
             loading = None, error = None, notFound = None\<rparr>"
  by code_simp


subsection \<open>Walks through the app directory\<close>

text \<open>
  A resolution is described as a descent from the app directory, one directory at a
  time. A directory is entered because it is named like the next URL segment, because it
  is a route group \<open>(name)\<close>, because it is a dynamic segment \<open>[name]\<close>, or because it is a
  catch-all \<open>[...name]\<close> or \<open>[[...name]]\<close>.
\<close>

datatype crossing =
  Exact string | Group string | Dynamic string | CatchAllOf string | OptionalCatchAllOf string

text \<open>The name of the directory entered.\<close>

fun dirName :: "crossing \<Rightarrow> string" where
  "dirName (Exact e) = e"
| "dirName (Group n) = ''('' @ n @ '')''"
| "dirName (Dynamic n) = ''['' @ n @ '']''"
| "dirName (CatchAllOf n) = ''[...'' @ n @ '']''"
| "dirName (OptionalCatchAllOf n) = ''[[...'' @ n @ '']]''"

text \<open>
  \<open>crosses cs segs\<close>: the crossings \<open>cs\<close> use up the URL segments \<open>segs\<close>. An exact match and
  a dynamic segment consume one segment, a catch-all of either kind consumes all that are
  left and at least one, a route group consumes none.
\<close>

fun crosses :: "crossing list \<Rightarrow> string list \<Rightarrow> bool" where
  "crosses [] segs \<longleftrightarrow> segs = []"
| "crosses (Group n # cs) segs \<longleftrightarrow> n \<noteq> [] \<and> CHR '')'' \<notin> set n \<and> crosses cs segs"
| "crosses (c # cs) [] \<longleftrightarrow> False"
| "crosses (Exact e # cs) (s # segs) \<longleftrightarrow> e = s \<and> crosses cs segs"
| "crosses (Dynamic n # cs) (s # segs) \<longleftrightarrow> CHR ''.'' \<notin> set n \<and> crosses cs segs"
| "crosses (CatchAllOf n # cs) (s # segs) \<longleftrightarrow> crosses cs []"
| "crosses (OptionalCatchAllOf n # cs) (s # segs) \<longleftrightarrow> crosses cs []"

text \<open>
  The parameters bound on the way: a dynamic segment binds its name to the segment, a
  catch-all binds its name to the sequence of the remaining segments.
\<close>

fun bindings :: "crossing list \<Rightarrow> string list \<Rightarrow> (string \<times> param) list" where
  "bindings (Group n # cs) segs = bindings cs segs"
| "bindings (Exact e # cs) (s # segs) = bindings cs segs"
| "bindings (Dynamic n # cs) (s # segs) = (n, Single s) # bindings cs segs"
| "bindings (CatchAllOf n # cs) (s # segs) = (n, CatchAll (s # segs)) # bindings cs []"
| "bindings (OptionalCatchAllOf n # cs) (s # segs) = (n, CatchAll (s # segs)) # bindings cs []"
| "bindings cs segs = []"

text \<open>The directories visited, from the starting directory down to the last one entered.\<close>

fun directories :: "string \<Rightarrow> crossing list \<Rightarrow> string list" where
  "directories d [] = [d]"
| "directories d (c # cs) = d # directories (d @ ''/'' @ dirName c) cs"

text \<open>
  \<open>encloses outer inner\<close>: directory \<open>inner\<close> is \<open>outer\<close> or lies below it. A list of layout
  files is outermost-first when the directory of each file encloses the directories of
  all files after it.
\<close>

definition encloses :: "string \<Rightarrow> string \<Rightarrow> bool" where
  "encloses outer inner \<longleftrightarrow> inner = outer \<or> prefix (outer @ ''/'') inner"

definition outermostFirst :: "string list \<Rightarrow> bool" where
  "outermostFirst lays \<longleftrightarrow>
     sorted_wrt (\<lambda>outer inner. encloses (dirnameOf outer) (dirnameOf inner)) lays"

text \<open>
  A route is justified, from directory \<open>d\<close> with the layouts \<open>lays\<close> and parameters \<open>pars\<close>
  collected so far, when some sequence of crossings uses up the segments, ends in the
  directory of the page, collects the layouts of the directories visited in the order of
  the visit, and binds the parameters in the order of the crossings.
\<close>

definition justified :: "vfs \<Rightarrow> string \<Rightarrow> string list \<Rightarrow> string list \<Rightarrow> param obj \<Rightarrow> appRoute \<Rightarrow> bool" where
  "justified fs d segs lays pars r \<longleftrightarrow>
     (\<exists>cs ext. crosses cs segs \<and> ext \<in> set extensions
        \<and> page r = last (directories d cs) @ ''/page'' @ ext
        \<and> layouts r = fold (collectLayout fs) (directories d cs) lays
        \<and> params r = foldl (\<lambda>acc (k, v). obj_set acc k v) pars (bindings cs segs))"

subsection \<open>Every resolved route is justified by a walk\<close>

lemma firstSome_SomeD: "firstSome f xs = Some y \<Longrightarrow> \<exists>x\<in>set xs. f x = Some y"
  by (induction xs) (auto split: option.splits)

lemma find_map_SomeD: "find P (map f xs) = Some y \<Longrightarrow> \<exists>x\<in>set xs. y = f x"
  by (induction xs) (auto split: if_splits)

lemma findPage_SomeD: "findPage fs d = Some p \<Longrightarrow> \<exists>ext\<in>set extensions. p = d @ ''/page'' @ ext"
  unfolding findPage_def by (rule find_map_SomeD)

lemma isRouteGroupD: "isRouteGroup g \<Longrightarrow> \<exists>n. g = dirName (Group n) \<and> n \<noteq> [] \<and> CHR '')'' \<notin> set n"
proof -
  assume "isRouteGroup g"
  then obtain rest where g: "g = CHR ''('' # rest" and r: "rest \<noteq> []" "last rest = CHR '')''"
    "butlast rest \<noteq> []" "CHR '')'' \<notin> set (butlast rest)"
    by (auto simp: isRouteGroup_def split: list.splits)
  from r(1,2) have "rest = butlast rest @ '')''" by (metis append_butlast_last_id)
  with g r(3,4) show ?thesis by (intro exI [of _ "butlast rest"]) simp
qed

lemma getRouteGroups_isRouteGroup: "g \<in> set (getRouteGroups fs d) \<Longrightarrow> isRouteGroup g"
  by (auto simp: getRouteGroups_def split: option.splits)

text \<open>
  The three branches of \<open>classifyEntry\<close> slice the parameter name out of the directory
  name, so the directory name is the name in its brackets.
\<close>

lemma between:
  assumes "prefix a e" "suffix b e" "length a + length b \<le> length e"
  shows "\<exists>m. e = a @ m @ b"
proof -
  from assms(1) obtain t where e: "e = a @ t" by (auto simp: prefix_def)
  from assms(3) e have "length b \<le> length t" by simp
  with assms(2) e have "suffix b t"
    by (auto simp: suffix_def append_eq_append_conv2)
  then show ?thesis using e by (auto simp: suffix_def)
qed

lemma classifyEntry_CatchAllD: "classifyEntry e = CatchAllEntry n \<Longrightarrow> e = dirName (CatchAllOf n)"
proof -
  assume a: "classifyEntry e = CatchAllEntry n"
  then have p: "prefix ''[...'' e" and s: "suffix '']'' e" and n: "n = slice 4 1 e"
    by (auto simp: classifyEntry_def startsWith_def endsWith_def split: if_splits)
  from p obtain t where e: "e = ''[...'' @ t" by (auto simp: prefix_def)
  from s e have "1 \<le> length t" by (cases t) (auto simp: suffix_to_prefix)
  with e have "length ''[...'' + length '']'' \<le> length e" by simp
  from between [OF p s this] obtain m where "e = ''[...'' @ m @ '']''" by blast
  with n show ?thesis by (simp add: slice_def)
qed

lemma classifyEntry_OptionalD:
  "classifyEntry e = OptionalCatchAllEntry n \<Longrightarrow> e = dirName (OptionalCatchAllOf n)"
proof -
  assume a: "classifyEntry e = OptionalCatchAllEntry n"
  then have p: "prefix ''[[...'' e" and s: "suffix '']]'' e" and n: "n = slice 5 2 e"
    by (auto simp: classifyEntry_def startsWith_def endsWith_def split: if_splits)
  from p obtain t where e: "e = ''[[...'' @ t" by (auto simp: prefix_def)
  from s e have "2 \<le> length t" by (cases t; cases "tl t") (auto simp: suffix_to_prefix)
  with e have "length ''[[...'' + length '']]'' \<le> length e" by simp
  from between [OF p s this] obtain m where "e = ''[[...'' @ m @ '']]''" by blast
  with n show ?thesis by (simp add: slice_def)
qed

lemma classifyEntry_DynamicD:
  "classifyEntry e = DynamicEntry n \<Longrightarrow> e = dirName (Dynamic n) \<and> CHR ''.'' \<notin> set n"
proof -
  assume a: "classifyEntry e = DynamicEntry n"
  then have p: "prefix ''['' e" and s: "suffix '']'' e" and n: "n = slice 1 1 e"
    and d: "CHR ''.'' \<notin> set e"
    by (auto simp: classifyEntry_def startsWith_def endsWith_def split: if_splits)
  from p obtain t where e: "e = ''['' @ t" by (auto simp: prefix_def)
  from s e have "1 \<le> length t" by (cases t) (auto simp: suffix_to_prefix)
  with e have "length ''['' + length '']'' \<le> length e" by simp
  from between [OF p s this] obtain m where e: "e = ''['' @ m @ '']''" by blast
  with n have "n = m" by (simp add: slice_def)
  with e d show ?thesis by simp
qed


lemma mkRoute_sel:
  "page (mkRoute fs a d pg lays pars) = pg"
  "layouts (mkRoute fs a d pg lays pars) = lays"
  "params (mkRoute fs a d pg lays pars) = pars"
  by (simp_all add: mkRoute_def)

lemma directories_nonempty: "directories d cs \<noteq> []"
  by (cases cs) simp_all

text \<open>The path of a child, kept folded while the walk is unfolded.\<close>

definition childDir :: "string \<Rightarrow> string \<Rightarrow> string" where
  "childDir d e = d @ ''/'' @ e"

lemma childDir_fold: "d @ CHR ''/'' # e = childDir d e"
  by (simp add: childDir_def)

lemma justified_here:
  assumes "findPage fs d = Some pg"
  shows "justified fs d [] lays pars (mkRoute fs a d pg (collectLayout fs d lays) pars)"
proof -
  from findPage_SomeD [OF assms] obtain ext where "ext \<in> set extensions" "pg = d @ ''/page'' @ ext"
    by blast
  then show ?thesis
    unfolding justified_def by (intro exI [of _ "[]"] exI [of _ ext]) (simp add: mkRoute_sel)
qed

lemma justified_prepend:
  assumes j: "justified fs (childDir base (dirName c)) segs' (collectLayout fs base Lb) pars' r"
    and cr: "\<And>cs. crosses cs segs' \<Longrightarrow> crosses (c # cs) segs"
    and bd: "\<And>cs. foldl (\<lambda>acc (k, v). obj_set acc k v) pars (bindings (c # cs) segs) =
                   foldl (\<lambda>acc (k, v). obj_set acc k v) pars' (bindings cs segs')"
  shows "justified fs base segs Lb pars r"
proof -
  from j obtain cs ext where c: "crosses cs segs'" and e: "ext \<in> set extensions"
    and p: "page r = last (directories (childDir base (dirName c)) cs) @ ''/page'' @ ext"
    and l: "layouts r = fold (collectLayout fs) (directories (childDir base (dirName c)) cs)
                          (collectLayout fs base Lb)"
    and q: "params r = foldl (\<lambda>acc (k, v). obj_set acc k v) pars' (bindings cs segs')"
    unfolding justified_def by blast
  have d: "directories base (c # cs) = base # directories (childDir base (dirName c)) cs"
    by (simp add: childDir_def)
  from cr [OF c] e p l q show ?thesis
    unfolding justified_def
    by (intro exI [of _ "c # cs"] exI [of _ ext]) (simp only: d bd, simp add: directories_nonempty)
qed

lemma tryPath_nil_justified:
  assumes "tryPath fs a d [] lays pars = Some r"
  shows "justified fs d [] lays pars r"
proof (cases "findPage fs d")
  case (Some pg)
  with assms have r: "r = mkRoute fs a d pg (collectLayout fs d lays) pars"
    by (simp add: Let_def)
  show ?thesis unfolding r by (rule justified_here [OF Some])
next
  case None
  with assms obtain g where g: "g \<in> set (getRouteGroups fs d)"
    and res: "(case findPage fs (childDir d g) of
                 Some pg \<Rightarrow> Some (mkRoute fs a (childDir d g) pg
                     (collectLayout fs (childDir d g) (collectLayout fs d lays)) pars)
               | None \<Rightarrow> None) = Some r"
    by (auto simp: Let_def childDir_fold dest!: firstSome_SomeD)
  then obtain pg where pg: "findPage fs (childDir d g) = Some pg"
    and r: "r = mkRoute fs a (childDir d g) pg (collectLayout fs (childDir d g) (collectLayout fs d lays)) pars"
    by (auto split: option.splits)
  from isRouteGroupD [OF getRouteGroups_isRouteGroup [OF g]]
  obtain n where n: "g = dirName (Group n)" "n \<noteq> []" "CHR '')'' \<notin> set n" by blast
  have "justified fs (childDir d (dirName (Group n))) [] (collectLayout fs d lays) pars r"
    unfolding r n(1) by (rule justified_here [OF pg [unfolded n(1)]])
  then show ?thesis
    by (rule justified_prepend) (simp_all add: n)
qed

lemma entry_attempt:
  assumes att: "(case classifyEntry entry of
        CatchAllEntry paramName \<Rightarrow>
          (if isDirectory fs (childDir base entry)
           then tryPath fs a (childDir base entry) [] (collectLayout fs base Lb)
                  (obj_set pars paramName (CatchAll (current # rest)))
           else None)
      | OptionalCatchAllEntry paramName \<Rightarrow>
          (if isDirectory fs (childDir base entry)
           then tryPath fs a (childDir base entry) [] (collectLayout fs base Lb)
                  (obj_set pars paramName (CatchAll (current # rest)))
           else None)
      | DynamicEntry paramName \<Rightarrow>
          (if isDirectory fs (childDir base entry)
           then tryPath fs a (childDir base entry) rest (collectLayout fs base Lb)
                  (obj_set pars paramName (Single current))
           else None)
      | StaticEntry \<Rightarrow> None) = Some r"
    and IH: "\<And>d lays pars r. tryPath fs a d rest lays pars = Some r \<Longrightarrow> justified fs d rest lays pars r"
  shows "justified fs base (current # rest) Lb pars r"
proof (cases "classifyEntry entry")
  case (CatchAllEntry n)
  with att have "tryPath fs a (childDir base entry) [] (collectLayout fs base Lb)
                  (obj_set pars n (CatchAll (current # rest))) = Some r"
    by (simp split: if_splits)
  from tryPath_nil_justified [OF this] show ?thesis
    unfolding classifyEntry_CatchAllD [OF CatchAllEntry]
    by (rule justified_prepend) simp_all
next
  case (OptionalCatchAllEntry n)
  with att have "tryPath fs a (childDir base entry) [] (collectLayout fs base Lb)
                  (obj_set pars n (CatchAll (current # rest))) = Some r"
    by (simp split: if_splits)
  from tryPath_nil_justified [OF this] show ?thesis
    unfolding classifyEntry_OptionalD [OF OptionalCatchAllEntry]
    by (rule justified_prepend) simp_all
next
  case (DynamicEntry n)
  with att have "tryPath fs a (childDir base entry) rest (collectLayout fs base Lb)
                  (obj_set pars n (Single current)) = Some r"
    by (simp split: if_splits)
  from IH [OF this] show ?thesis
    unfolding classifyEntry_DynamicD [OF DynamicEntry, THEN conjunct1]
    by (rule justified_prepend)
       (simp_all add: classifyEntry_DynamicD [OF DynamicEntry, THEN conjunct2])
next
  case StaticEntry
  with att show ?thesis by simp
qed

text \<open>The walk of the code, by induction on the segments still to be consumed.\<close>

lemma tryPath_justified:
  "tryPath fs a d segs lays pars = Some r \<Longrightarrow> justified fs d segs lays pars r"
proof (induction segs arbitrary: d lays pars r)
  case Nil
  then show ?case by (rule tryPath_nil_justified)
next
  case (Cons current rest)
  let ?L = "collectLayout fs d lays"
  have exact: "justified fs base (current # rest) Lb pars r"
    if "tryPath fs a (childDir base current) rest (collectLayout fs base Lb) pars = Some r" for r base Lb
    by (rule justified_prepend [where c = "Exact current"]) (use Cons.IH [OF that] in simp_all)
  have group: "justified fs d (current # rest) lays pars r"
    if g: "g \<in> set (getRouteGroups fs d)" and j: "justified fs (childDir d g) (current # rest) ?L pars r" for g r
  proof -
    from isRouteGroupD [OF getRouteGroups_isRouteGroup [OF g]]
    obtain n where n: "g = dirName (Group n)" "n \<noteq> []" "CHR '')'' \<notin> set n" by blast
    from j [unfolded n(1)] show ?thesis by (rule justified_prepend) (simp_all add: n)
  qed
  note entry = entry_attempt [OF _ Cons.IH]
  note groupExact = group [OF _ exact]
  note groupEntry = group [OF _ entry]
  from Cons.prems show ?case
    by (auto simp: Let_def childDir_fold split: option.splits if_splits dest!: firstSome_SomeD
             intro: exact entry groupExact groupEntry)
qed


lemma pathSegments_root:
  "(if pathname = ''/'' then [] else pathSegments pathname) = pathSegments pathname"
  by (simp add: pathSegments_def)

lemma rootLayout_collect:
  "(case find (exists fs) (map (\<lambda>ext. d @ ''/layout'' @ ext) extensions) of
      Some rootLayout \<Rightarrow> [rootLayout] | None \<Rightarrow> []) = collectLayout fs d []"
  by (simp add: collectLayout_def split: option.splits)

lemma resolveAppRoute_justified:
  assumes "resolveAppRoute srv pathname = Some r"
  shows "justified (vfs srv) (appDir srv) (pathSegments pathname)
           (collectLayout (vfs srv) (appDir srv) []) [] r"
  using assms
  unfolding resolveAppRoute_def resolveAppDynamicRoute_def Let_def rootLayout_collect
    pathSegments_root
  by (rule tryPath_justified)

subsection \<open>Keys of the parameters, order of the layouts\<close>

lemma obj_set_keys: "set (map fst (obj_set a k v)) = insert k (set (map fst a))"
proof (induction a)
  case Nil
  show ?case by simp
next
  case (Cons e a)
  obtain k' v' where e: "e = (k', v')" by (cases e)
  from Cons show ?case unfolding e by (simp add: insert_commute)
qed

lemma foldl_obj_set_keys:
  "set (map fst (foldl (\<lambda>acc (k, v). obj_set acc k v) a es)) = set (map fst a) \<union> set (map fst es)"
proof (induction es arbitrary: a)
  case Nil
  show ?case by simp
next
  case (Cons e es)
  obtain k v where e: "e = (k, v)" by (cases e)
  from Cons [of "obj_set a k v"] obj_set_keys [of a k v] show ?case by (simp add: e)
qed

lemma encloses_refl: "encloses d d"
  by (simp add: encloses_def)

lemma encloses_child: "encloses (d @ CHR ''/'' # c) x \<Longrightarrow> encloses d x"
  by (auto simp: encloses_def prefix_def)

lemma directories_enclosed: "x \<in> set (directories d cs) \<Longrightarrow> encloses d x"
  by (induction cs arbitrary: d) (auto simp: encloses_refl dest: encloses_child)

lemma directories_sorted: "sorted_wrt encloses (directories d cs)"
  by (induction cs arbitrary: d) (auto dest: directories_enclosed encloses_child)

lemma dirnameOf_child:
  assumes "CHR ''/'' \<notin> set name" "name \<noteq> []"
  shows "dirnameOf (d @ ''/'' @ name) = d"
proof -
  from assms(1) have t: "takeWhile (\<lambda>c. c \<noteq> CHR ''/'') (rev name) = rev name" by auto
  from assms(2) show ?thesis
    by (simp add: dirnameOf_def Let_def takeWhile_tail t)
qed

lemma dirnameOf_layout: "ext \<in> set extensions \<Longrightarrow> dirnameOf (d @ ''/layout'' @ ext) = d"
  using dirnameOf_child [of "''layout'' @ ext" d] by (auto simp: extensions_def)

lemma collectLayout_cases:
  "collectLayout fs d L = L \<or> (\<exists>ext\<in>set extensions. collectLayout fs d L = L @ [d @ ''/layout'' @ ext])"
  by (auto simp: collectLayout_def split: option.splits dest!: find_map_SomeD)

lemma fold_collectLayout_sorted:
  assumes "sorted_wrt encloses ds"
    and "sorted_wrt (\<lambda>outer inner. encloses (dirnameOf outer) (dirnameOf inner)) L"
    and "\<forall>l\<in>set L. \<forall>d\<in>set ds. encloses (dirnameOf l) d"
  shows "sorted_wrt (\<lambda>outer inner. encloses (dirnameOf outer) (dirnameOf inner))
           (fold (collectLayout fs) ds L)"
  using assms
proof (induction ds arbitrary: L)
  case Nil
  then show ?case by simp
next
  case (Cons d ds)
  from collectLayout_cases [of fs d L]
  have "sorted_wrt (\<lambda>outer inner. encloses (dirnameOf outer) (dirnameOf inner)) (collectLayout fs d L)
      \<and> (\<forall>l\<in>set (collectLayout fs d L). \<forall>d'\<in>set ds. encloses (dirnameOf l) d')"
    using Cons.prems by (auto simp: sorted_wrt_append dirnameOf_layout [simplified])
  with Cons.IH [of "collectLayout fs d L"] Cons.prems(1) show ?case by simp
qed

lemma layouts_outermostFirst:
  "outermostFirst (fold (collectLayout fs) (directories d cs) (collectLayout fs d []))"
proof -
  have "fold (collectLayout fs) (directories d cs) (collectLayout fs d [])
      = fold (collectLayout fs) (d # directories d cs) []" by simp
  moreover have "sorted_wrt encloses (d # directories d cs)"
    by (auto simp: directories_sorted dest: directories_enclosed)
  ultimately show ?thesis
    unfolding outermostFirst_def using fold_collectLayout_sorted [of "d # directories d cs" "[]" fs]
    by simp
qed


subsection \<open>Which directories are entered how\<close>

text \<open>The parameter name a crossing binds, if it binds one.\<close>

fun boundName :: "crossing \<Rightarrow> string option" where
  "boundName (Dynamic n) = Some n"
| "boundName (CatchAllOf n) = Some n"
| "boundName (OptionalCatchAllOf n) = Some n"
| "boundName c = None"

text \<open>
  An exact match is tried before anything else, whatever the directory is called: a
  directory entered by an exact match is spelled by one of the URL's segments. So a
  route-group directory on the way is entered as a group, and a dynamic directory as a
  dynamic segment or catch-all, unless a URL segment spells its own name.
\<close>

lemma crosses_Exact_segment: "crosses cs segs \<Longrightarrow> Exact e \<in> set cs \<Longrightarrow> e \<in> set segs"
  by (induction cs segs rule: crosses.induct) auto

lemma crossed_group:
  assumes "crosses cs segs" "c \<in> set cs" "isRouteGroup (dirName c)"
  shows "(\<exists>n. c = Group n) \<or> dirName c \<in> set segs"
  using assms by (cases c) (auto simp: isRouteGroup_def dest: crosses_Exact_segment)

lemma crossed_dynamic:
  assumes "crosses cs segs" "c \<in> set cs" "classifyEntry (dirName c) \<noteq> StaticEntry"
  shows "boundName c \<noteq> None \<or> dirName c \<in> set segs"
  using assms by (cases c) (auto simp: classifyEntry_def startsWith_def dest: crosses_Exact_segment)

lemma bindings_names:
  "crosses cs segs \<Longrightarrow> map fst (bindings cs segs) = List.map_filter boundName cs"
  by (induction cs segs rule: crosses.induct) (auto simp: map_filter_simps)


subsection \<open>Route groups and layouts\<close>

text \<open>The file system of the route-group example.\<close>

definition marketingFiles :: "(string \<times> string) list" where
  "marketingFiles =
     [(''/app/(marketing)/layout.tsx'', ''M''), (''/app/(marketing)/about/page.tsx'', ''A'')]"

text \<open>
  Claim C5 fails as stated in two places. The exact match is tried first, so the path
  \<open>/(marketing)/about\<close> resolves to the same page: the route group is entered by the
  segment that spells its name and consumes it (the crossing that treats the group as
  transparent does not use up the two segments). And the app directory is looked at
  twice, so root layouts of two extensions are both listed in front of the group's.
\<close>

theorem C5_layouts_outermost_first_counterexample:
  "resolveAppRoute (appServer marketingFiles) ''/(marketing)/about'' =
     Some \<lparr>page = ''/app/(marketing)/about/page.tsx'',
           layouts = [''/app/(marketing)/layout.tsx''], params = [],
           loading = None, error = None, notFound = None\<rparr>
   \<and> pathSegments ''/(marketing)/about'' = [''(marketing)'', ''about'']
   \<and> isRouteGroup ''(marketing)''
   \<and> crosses [Exact ''(marketing)'', Exact ''about''] [''(marketing)'', ''about'']
   \<and> \<not> crosses [Group ''marketing'', Exact ''about''] [''(marketing)'', ''about'']
   \<and> resolveAppRoute
         (appServer ((''/app/layout.jsx'', ''J'') # (''/app/layout.tsx'', ''T'') # marketingFiles))
         ''/about'' =
       Some \<lparr>page = ''/app/(marketing)/about/page.tsx'',
             layouts = [''/app/layout.jsx'', ''/app/layout.tsx'', ''/app/(marketing)/layout.tsx''],
             params = [], loading = None, error = None, notFound = None\<rparr>"
  by code_simp

text \<open>
  Claim C5, as amended. With \<open>/app/(marketing)/layout.tsx\<close> and
  \<open>/app/(marketing)/about/page.tsx\<close> in the file system and at most one root layout
  \<open>/app/layout.*\<close> besides them, \<open>/about\<close> resolves to that page, with the root layout (of
  any of the four extensions, when there is one) followed by the layout of the group, and
  with empty parameters. In general, whenever a path resolves, the page lies in the
  directory reached by crossings that use up the path's segments; the layouts are those
  collected in the directories visited, from the app directory (looked at once before the
  walk and once at its start) down to the directory of the page, so they are
  outermost-first; and every route-group directory on the way is entered as a group,
  using up no segment, unless a segment of the path spells the directory's own name.
\<close>

theorem C5_layouts_outermost_first:
  "resolveAppRoute (appServer marketingFiles) ''/about'' =
     Some \<lparr>page = ''/app/(marketing)/about/page.tsx'',
           layouts = [''/app/(marketing)/layout.tsx''], params = [],
           loading = None, error = None, notFound = None\<rparr>
   \<and> list_all (\<lambda>ext.
         resolveAppRoute (appServer ((''/app/layout'' @ ext, ''R'') # marketingFiles)) ''/about'' =
           Some \<lparr>page = ''/app/(marketing)/about/page.tsx'',
                 layouts = [''/app/layout'' @ ext, ''/app/(marketing)/layout.tsx''], params = [],
                 loading = None, error = None, notFound = None\<rparr>) extensions
   \<and> (resolveAppRoute srv pathname = Some r \<longrightarrow>
        (\<exists>cs ext. crosses cs (pathSegments pathname) \<and> ext \<in> set extensions
           \<and> page r = last (directories (appDir srv) cs) @ ''/page'' @ ext
           \<and> layouts r = fold (collectLayout (vfs srv)) (appDir srv # directories (appDir srv) cs) []
           \<and> outermostFirst (layouts r)
           \<and> (\<forall>c\<in>set cs. isRouteGroup (dirName c) \<longrightarrow>
                 (\<exists>n. c = Group n) \<or> dirName c \<in> set (pathSegments pathname))))"
proof (intro conjI impI)
  show "resolveAppRoute (appServer marketingFiles) ''/about'' =
     Some \<lparr>page = ''/app/(marketing)/about/page.tsx'',
           layouts = [''/app/(marketing)/layout.tsx''], params = [],
           loading = None, error = None, notFound = None\<rparr>"
    by code_simp
  show "list_all (\<lambda>ext.
         resolveAppRoute (appServer ((''/app/layout'' @ ext, ''R'') # marketingFiles)) ''/about'' =
           Some \<lparr>page = ''/app/(marketing)/about/page.tsx'',
                 layouts = [''/app/layout'' @ ext, ''/app/(marketing)/layout.tsx''], params = [],
                 loading = None, error = None, notFound = None\<rparr>) extensions"
    by code_simp
next
  assume "resolveAppRoute srv pathname = Some r"
  from resolveAppRoute_justified [OF this]
  obtain cs ext where c: "crosses cs (pathSegments pathname)" and e: "ext \<in> set extensions"
    and p: "page r = last (directories (appDir srv) cs) @ ''/page'' @ ext"
    and l: "layouts r = fold (collectLayout (vfs srv)) (directories (appDir srv) cs)
                          (collectLayout (vfs srv) (appDir srv) [])"
    unfolding justified_def by blast
  from l have "outermostFirst (layouts r)" by (simp only: layouts_outermostFirst)
  moreover from l have "layouts r =
      fold (collectLayout (vfs srv)) (appDir srv # directories (appDir srv) cs) []" by simp
  moreover have "\<forall>c\<in>set cs. isRouteGroup (dirName c) \<longrightarrow>
      (\<exists>n. c = Group n) \<or> dirName c \<in> set (pathSegments pathname)"
    using crossed_group [OF c] by blast
  ultimately show "\<exists>cs ext. crosses cs (pathSegments pathname) \<and> ext \<in> set extensions
           \<and> page r = last (directories (appDir srv) cs) @ ''/page'' @ ext
           \<and> layouts r = fold (collectLayout (vfs srv)) (appDir srv # directories (appDir srv) cs) []
           \<and> outermostFirst (layouts r)
           \<and> (\<forall>c\<in>set cs. isRouteGroup (dirName c) \<longrightarrow>
                 (\<exists>n. c = Group n) \<or> dirName c \<in> set (pathSegments pathname))"
    using c e p by blast
qed

text \<open>
  A route below a route group with a layout at every level: \<open>/products/42\<close> resolves
  through \<open>(shop)/products/[id]\<close>.
\<close>

definition shopFiles :: "(string \<times> string) list" where
  "shopFiles =
     [(''/app/layout.tsx'', ''R''), (''/app/(shop)/layout.jsx'', ''S''),
      (''/app/(shop)/products/layout.tsx'', ''L''), (''/app/(shop)/products/[id]/page.tsx'', ''P'')]"

definition shopRoute :: appRoute where
  "shopRoute =
     \<lparr>page = ''/app/(shop)/products/[id]/page.tsx'',
      layouts = [''/app/layout.tsx'', ''/app/(shop)/layout.jsx'', ''/app/(shop)/products/layout.tsx''],
      params = [(''id'', Single ''42'')], loading = None, error = None, notFound = None\<rparr>"

theorem C5_layouts_outermost_first_witness:
  "resolveAppRoute (appServer shopFiles) ''/products/42'' = Some shopRoute
   \<and> (\<exists>cs ext. crosses cs (pathSegments ''/products/42'') \<and> ext \<in> set extensions
         \<and> page shopRoute = last (directories (appDir (appServer shopFiles)) cs) @ ''/page'' @ ext
         \<and> layouts shopRoute = fold (collectLayout (vfs (appServer shopFiles)))
               (appDir (appServer shopFiles) # directories (appDir (appServer shopFiles)) cs) []
         \<and> outermostFirst (layouts shopRoute)
         \<and> (\<forall>c\<in>set cs. isRouteGroup (dirName c) \<longrightarrow>
               (\<exists>n. c = Group n) \<or> dirName c \<in> set (pathSegments ''/products/42'')))"
proof -
  have "resolveAppRoute (appServer shopFiles) ''/products/42'' = Some shopRoute"
    by code_simp
  with C5_layouts_outermost_first [of "appServer shopFiles" "''/products/42''" shopRoute]
  show ?thesis by blast
qed


subsection \<open>Route parameters\<close>

text \<open>
  Claim C6 fails as stated where a URL segment spells the name of a dynamic directory:
  the exact match is tried first, the directory \<open>[id]\<close> or \<open>[...slug]\<close> is crossed, and no
  parameter is bound.
\<close>

theorem C6_params_bind_the_dynamic_segments_counterexample:
  "resolveAppRoute (appServer [(''/app/users/[id]/page.tsx'', ''P'')]) ''/users/[id]'' =
     Some \<lparr>page = ''/app/users/[id]/page.tsx'', layouts = [], params = [],
           loading = None, error = None, notFound = None\<rparr>
   \<and> classifyEntry ''[id]'' = DynamicEntry ''id''
   \<and> resolveAppRoute (appServer [(''/app/docs/[...slug]/page.tsx'', ''P'')]) ''/docs/[...slug]'' =
       Some \<lparr>page = ''/app/docs/[...slug]/page.tsx'', layouts = [], params = [],
             loading = None, error = None, notFound = None\<rparr>
   \<and> classifyEntry ''[...slug]'' = CatchAllEntry ''slug''"
  by code_simp

text \<open>
  Claim C6, as amended. With \<open>/app/docs/[...slug]/page.tsx\<close> in the file system,
  \<open>/docs/a/b/c\<close> resolves and \<open>params.slug\<close> is the sequence \<open>a, b, c\<close>. In general, whenever a
  path resolves, the page lies in the directory reached by crossings that use up the
  path's segments, and \<open>params\<close> is the object built from the bindings of the crossings in
  order: its keys are exactly the names of the directories crossed as a dynamic segment
  or catch-all, a dynamic segment binds the segment as a string and a catch-all binds the
  remaining segments as a sequence; and every dynamic directory on the way is crossed so,
  unless a segment of the path spells the directory's own name.
\<close>

theorem C6_params_bind_the_dynamic_segments:
  "resolveAppRoute (appServer [(''/app/docs/[...slug]/page.tsx'', ''P'')]) ''/docs/a/b/c'' =
     Some \<lparr>page = ''/app/docs/[...slug]/page.tsx'', layouts = [],
           params = [(''slug'', CatchAll [''a'', ''b'', ''c''])],
           loading = None, error = None, notFound = None\<rparr>
   \<and> (resolveAppRoute srv pathname = Some r \<longrightarrow>
        (\<exists>cs ext. crosses cs (pathSegments pathname) \<and> ext \<in> set extensions
           \<and> page r = last (directories (appDir srv) cs) @ ''/page'' @ ext
           \<and> params r = Object_fromEntries (bindings cs (pathSegments pathname))
           \<and> set (map fst (params r)) = set (List.map_filter boundName cs)
           \<and> (\<forall>c\<in>set cs. classifyEntry (dirName c) \<noteq> StaticEntry \<longrightarrow>
                 boundName c \<noteq> None \<or> dirName c \<in> set (pathSegments pathname))))"
proof (intro conjI impI)
  show "resolveAppRoute (appServer [(''/app/docs/[...slug]/page.tsx'', ''P'')]) ''/docs/a/b/c'' =
     Some \<lparr>page = ''/app/docs/[...slug]/page.tsx'', layouts = [],
           params = [(''slug'', CatchAll [''a'', ''b'', ''c''])],
           loading = None, error = None, notFound = None\<rparr>"
    by code_simp
next
  assume "resolveAppRoute srv pathname = Some r"
  from resolveAppRoute_justified [OF this]
  obtain cs ext where c: "crosses cs (pathSegments pathname)" and e: "ext \<in> set extensions"
    and p: "page r = last (directories (appDir srv) cs) @ ''/page'' @ ext"
    and q: "params r = Object_fromEntries (bindings cs (pathSegments pathname))"
    unfolding justified_def Object_fromEntries_def by blast
  from q have "set (map fst (params r)) = set (map fst (bindings cs (pathSegments pathname)))"
    using foldl_obj_set_keys [of "[]" "bindings cs (pathSegments pathname)"]
    by (simp add: Object_fromEntries_def)
  then have k: "set (map fst (params r)) = set (List.map_filter boundName cs)"
    by (simp only: bindings_names [OF c])
  have "\<forall>c\<in>set cs. classifyEntry (dirName c) \<noteq> StaticEntry \<longrightarrow>
      boundName c \<noteq> None \<or> dirName c \<in> set (pathSegments pathname)"
    using crossed_dynamic [OF c] by blast
  with c e p q k show "\<exists>cs ext. crosses cs (pathSegments pathname) \<and> ext \<in> set extensions
           \<and> page r = last (directories (appDir srv) cs) @ ''/page'' @ ext
           \<and> params r = Object_fromEntries (bindings cs (pathSegments pathname))
           \<and> set (map fst (params r)) = set (List.map_filter boundName cs)
           \<and> (\<forall>c\<in>set cs. classifyEntry (dirName c) \<noteq> StaticEntry \<longrightarrow>
                 boundName c \<noteq> None \<or> dirName c \<in> set (pathSegments pathname))"
    by blast
qed

text \<open>
  A dynamic segment followed by a catch-all: \<open>/en/docs/x/y\<close> resolves through
  \<open>[lang]/docs/[...slug]\<close>.
\<close>

definition localisedFiles :: "(string \<times> string) list" where
  "localisedFiles = [(''/app/[lang]/docs/[...slug]/page.tsx'', ''P'')]"

definition localisedRoute :: appRoute where
  "localisedRoute =
     \<lparr>page = ''/app/[lang]/docs/[...slug]/page.tsx'', layouts = [],
      params = [(''lang'', Single ''en''), (''slug'', CatchAll [''x'', ''y''])],
      loading = None, error = None, notFound = None\<rparr>"

theorem C6_params_bind_the_dynamic_segments_witness:
  "resolveAppRoute (appServer localisedFiles) ''/en/docs/x/y'' = Some localisedRoute
   \<and> (\<exists>cs ext. crosses cs (pathSegments ''/en/docs/x/y'') \<and> ext \<in> set extensions
         \<and> page localisedRoute = last (directories (appDir (appServer localisedFiles)) cs) @ ''/page'' @ ext
         \<and> params localisedRoute = Object_fromEntries (bindings cs (pathSegments ''/en/docs/x/y''))
         \<and> set (map fst (params localisedRoute)) = set (List.map_filter boundName cs)
         \<and> (\<forall>c\<in>set cs. classifyEntry (dirName c) \<noteq> StaticEntry \<longrightarrow>
               boundName c \<noteq> None \<or> dirName c \<in> set (pathSegments ''/en/docs/x/y'')))"
proof -
  have "resolveAppRoute (appServer localisedFiles) ''/en/docs/x/y'' = Some localisedRoute"
    by code_simp
  with C6_params_bind_the_dynamic_segments [of "appServer localisedFiles" "''/en/docs/x/y''" localisedRoute]
  show ?thesis by blast
qed


section \<open>Properties of the transform cache\<close>

text \<open>
  Claim C2, as amended. Let \<open>F\<close> hold bytes \<open>c\<close> that the transform accepts. Two
  consecutive \<open>transformAndServe\<close> calls for \<open>F\<close> return the same body, and the second
  carries \<open>X-Cache: hit\<close>. After the bytes change to \<open>c'\<close> with a different hash, the next
  response has no \<open>X-Cache\<close> header and carries the transform of \<open>c'\<close>; the one after it,
  the transform of \<open>c'\<close> accepted too, is a hit again with the same body. Whatever the
  cache held before, and whatever URL each request used.
\<close>

theorem C2_transform_cache:
  "readFileSync (vfs srv) F = Inr c \<Longrightarrow> transformCode h (vfs srv) c F = Inr out \<Longrightarrow>
   readFileSync (vfs srv') F = Inr c' \<Longrightarrow> transformCode h (vfs srv') c' F = Inr out' \<Longrightarrow>
   simpleHash h c' \<noteq> simpleHash h c \<Longrightarrow>
   (let (r1, st1) = transformAndServe h srv st F u1;
        (r2, st2) = transformAndServe h srv st1 F u2;
        (r3, st3) = transformAndServe h srv' st2 F u3;
        (r4, st4) = transformAndServe h srv' st3 F u4
    in body r1 = body r2 \<and> map_of (res_headers r2) ''X-Cache'' = Some ''hit''
       \<and> map_of (res_headers r3) ''X-Cache'' = None \<and> body r3 = out'
       \<and> map_of (res_headers r4) ''X-Cache'' = Some ''hit'' \<and> body r4 = out')"
  by (auto simp: transformAndServe_def Let_def split: option.splits if_splits)

theorem C2_transform_cache_witness:
  "(let srv = serverOn (mkVFS [(''/pages/index.jsx'', ''A'')]);
        srv' = serverOn (mkVFS [(''/pages/index.jsx'', ''B'')]);
        h = hostRunning endsAtOnce; F = ''/pages/index.jsx'';
        (r1, st1) = transformAndServe h srv initialState F F;
        (r2, st2) = transformAndServe h srv st1 F F;
        (r3, st3) = transformAndServe h srv' st2 F F;
        (r4, st4) = transformAndServe h srv' st3 F F
    in readFileSync (vfs srv) F = Inr ''A'' \<and> transformCode h (vfs srv) ''A'' F = Inr ''A'' \<and>
       readFileSync (vfs srv') F = Inr ''B'' \<and> transformCode h (vfs srv') ''B'' F = Inr ''B'' \<and>
       simpleHash h ''B'' \<noteq> simpleHash h ''A'' \<and>
       body r1 = body r2 \<and> map_of (res_headers r2) ''X-Cache'' = Some ''hit''
       \<and> map_of (res_headers r3) ''X-Cache'' = None \<and> body r3 = ''B''
       \<and> map_of (res_headers r4) ''X-Cache'' = Some ''hit'' \<and> body r4 = ''B'')"
proof -
  let ?srv = "serverOn (mkVFS [(''/pages/index.jsx'', ''A'')])"
  let ?srv' = "serverOn (mkVFS [(''/pages/index.jsx'', ''B'')])"
  let ?h = "hostRunning endsAtOnce"
  have 1: "readFileSync (vfs ?srv) ''/pages/index.jsx'' = Inr ''A''"
    by (simp add: serverOn_def mkVFS_def)
  have 2: "transformCode ?h (vfs ?srv) ''A'' ''/pages/index.jsx'' = Inr ''A''"
    by (simp add: hostRunning_def)
  have 3: "readFileSync (vfs ?srv') ''/pages/index.jsx'' = Inr ''B''"
    by (simp add: serverOn_def mkVFS_def)
  have 4: "transformCode ?h (vfs ?srv') ''B'' ''/pages/index.jsx'' = Inr ''B''"
    by (simp add: hostRunning_def)
  have 5: "simpleHash ?h ''B'' \<noteq> simpleHash ?h ''A''"
    by (simp add: hostRunning_def)
  show ?thesis
    using C2_transform_cache [OF 1 2 3 4 5, of initialState "''/pages/index.jsx''"
        "''/pages/index.jsx''" "''/pages/index.jsx''" "''/pages/index.jsx''"] 1 2 3 4 5
    by (simp add: Let_def split_beta)
qed

text \<open>
  A file the transform rejects, requested while the cache holds no entry with the hash
  of its bytes, is answered from the \<open>catch\<close> block and the cache is left as it was.
\<close>

lemma transformAndServe_rejected:
  "readFileSync (vfs srv) F = Inr c \<Longrightarrow> transformCode h (vfs srv) c F = Inl e \<Longrightarrow>
   (\<forall>cached. transformCache st F = Some cached \<longrightarrow> c_hash cached \<noteq> simpleHash h c) \<Longrightarrow>
   transformAndServe h srv st F u = (transformError e, st)"
  by (auto simp: transformAndServe_def Let_def split: option.splits)

text \<open>
  The claim as stated fails for a file the transform rejects: the \<open>catch\<close> block answers
  with \<open>X-Transform-Error\<close> and stores nothing, so the second request for the same bytes
  is no cache hit.
\<close>

definition hostFailing :: host where
  "hostFailing =
     (hostRunning endsAtOnce)\<lparr>transformCode := (\<lambda>fs code file. Inl (Some ''Unexpected token''))\<rparr>"

definition brokenServer :: server where
  "brokenServer = serverOn (mkVFS [(''/pages/broken.jsx'', ''<'')])"

theorem C2_transform_cache_counterexample:
  "needsTransform ''/pages/broken.jsx''
   \<and> map_of (res_headers (fst (transformAndServe hostFailing brokenServer
         (snd (transformAndServe hostFailing brokenServer initialState
                 ''/pages/broken.jsx'' ''/pages/broken.jsx''))
         ''/pages/broken.jsx'' ''/pages/broken.jsx''))) ''X-Cache'' = None
   \<and> map_of (res_headers (fst (transformAndServe hostFailing brokenServer
         (snd (transformAndServe hostFailing brokenServer initialState
                 ''/pages/broken.jsx'' ''/pages/broken.jsx''))
         ''/pages/broken.jsx'' ''/pages/broken.jsx''))) ''X-Transform-Error'' = Some ''true''"
  by code_simp


section \<open>Properties of the environment script\<close>

definition isPublic :: "string \<times> string \<Rightarrow> bool" where
  "isPublic kv \<longleftrightarrow> startsWith (fst kv) ''NEXT_PUBLIC_''"

lemma foldl_public_filter:
  "foldl (\<lambda>acc (key, v). if startsWith key ''NEXT_PUBLIC_'' then obj_set acc key v else acc) a e =
   foldl (\<lambda>acc (k, v). obj_set acc k v) a (filter isPublic e)"
  by (induction e arbitrary: a) (auto simp: isPublic_def)

lemma publicEnvVarsOf_filter: "publicEnvVarsOf e = Object_fromEntries (filter isPublic e)"
  by (simp add: publicEnvVarsOf_def Object_fromEntries_def foldl_public_filter)

text \<open>A new key that is no array index is put at the end; a public key is none.\<close>

lemma obj_set_fresh:
  "k \<notin> fst ` set a \<Longrightarrow> \<not> isArrayIndex k \<Longrightarrow> obj_set a k v = a @ [(k, v)]"
  by (induction a) (auto simp: keyBefore_def)

lemma foldl_obj_set_distinct:
  "distinct (map fst (a @ e)) \<Longrightarrow> \<forall>kv\<in>set e. \<not> isArrayIndex (fst kv) \<Longrightarrow>
   foldl (\<lambda>acc (k, v). obj_set acc k v) a e = a @ e"
proof (induction e arbitrary: a)
  case Nil
  then show ?case by simp
next
  case (Cons kv e)
  obtain k v where kv: "kv = (k, v)" by (cases kv)
  from Cons.prems have fresh: "k \<notin> fst ` set a" by (auto simp: kv)
  from Cons.prems have name: "\<not> isArrayIndex k" by (simp add: kv)
  from Cons.prems have "distinct (map fst ((a @ [(k, v)]) @ e))" by (auto simp: kv)
  moreover from Cons.prems have "\<forall>kv\<in>set e. \<not> isArrayIndex (fst kv)" by simp
  ultimately show ?case using Cons.IH [of "a @ [(k, v)]"]
    by (simp add: kv obj_set_fresh [OF fresh name])
qed

lemma isPublic_not_index: "isPublic kv \<Longrightarrow> \<not> isArrayIndex (fst kv)"
  by (auto simp: isPublic_def startsWith_def prefix_def isArrayIndex_def isDigit_def charBetween_def)

lemma publicEnvVarsOf_distinct:
  "distinct (map fst e) \<Longrightarrow> publicEnvVarsOf e = filter isPublic e"
  using foldl_obj_set_distinct [of "[]" "filter isPublic e"]
  by (simp add: publicEnvVarsOf_filter Object_fromEntries_def distinct_map_filter isPublic_not_index)

lemma generateEnvScript_env:
  "filter isPublic e1 = filter isPublic e2 \<Longrightarrow>
   generateEnvScript (srv\<lparr>env := e1\<rparr>) = generateEnvScript (srv\<lparr>env := e2\<rparr>)"
  by (simp add: generateEnvScript_def publicEnvVarsOf_filter)

text \<open>Nothing but \<open>generateEnvScript\<close> reads \<open>env\<close> on the way to a page.\<close>

lemma env_irrelevant [simp]:
  "resolveAppRoute (srv\<lparr>env := e\<rparr>) p = resolveAppRoute srv p"
  "resolvePageFile (srv\<lparr>env := e\<rparr>) p = resolvePageFile srv p"
  "virtualPrefixOf (srv\<lparr>env := e\<rparr>) = virtualPrefixOf srv"
  "cssLinks (srv\<lparr>env := e\<rparr>) ls = cssLinks srv ls"
  "loadTailwindConfigIfNeeded h (srv\<lparr>env := e\<rparr>) st = loadTailwindConfigIfNeeded h srv st"
  "serve404Page (srv\<lparr>env := e\<rparr>) = serve404Page srv"
  "transformAndServe h (srv\<lparr>env := e\<rparr>) st f u = transformAndServe h srv st f u"
  by (simp_all add: resolveAppRoute_def resolveAppDynamicRoute_def resolvePageFile_def
      resolveDynamicRoute_def virtualPrefixOf_def cssLinks_def loadTailwindConfigIfNeeded_def
      serve404Page_def transformAndServe_def Let_def cong: option.case_cong sum.case_cong if_cong)

lemma generatePageHtml_env:
  "filter isPublic e1 = filter isPublic e2 \<Longrightarrow>
   generatePageHtml h t (srv\<lparr>env := e1\<rparr>) st f p = generatePageHtml h t (srv\<lparr>env := e2\<rparr>) st f p"
  by (simp add: generatePageHtml_def generateEnvScript_env [of e1 e2 srv])

lemma generateAppRouterHtml_env:
  "filter isPublic e1 = filter isPublic e2 \<Longrightarrow>
   generateAppRouterHtml h t (srv\<lparr>env := e1\<rparr>) st r p =
   generateAppRouterHtml h t (srv\<lparr>env := e2\<rparr>) st r p"
  by (simp add: generateAppRouterHtml_def generateEnvScript_env [of e1 e2 srv])

lemma handlePageRoute_env:
  "filter isPublic e1 = filter isPublic e2 \<Longrightarrow>
   handlePageRoute h t (srv\<lparr>env := e1\<rparr>) st p q = handlePageRoute h t (srv\<lparr>env := e2\<rparr>) st p q"
  by (simp add: handlePageRoute_def handleAppRouterPage_def generatePageHtml_env [of e1 e2]
        generateAppRouterHtml_env [of e1 e2] cong: option.case_cong sum.case_cong if_cong)

lemma contains_here: "\<exists>pre post. x @ ys = pre @ x @ (post::string)"
  by (rule exI [of _ "[]"]) simp

lemma contains_append:
  "\<exists>pre post. ys = pre @ x @ post \<Longrightarrow> \<exists>pre post. xs @ ys = pre @ x @ (post::string)"
proof -
  assume "\<exists>pre post. ys = pre @ x @ post"
  then obtain pre post where "ys = pre @ x @ post" by blast
  then have "xs @ ys = (xs @ pre) @ x @ post" by simp
  then show ?thesis by blast
qed

lemma generatePageHtml_contains:
  "\<exists>pre post. fst (generatePageHtml h t srv st f p) = pre @ generateEnvScript srv @ post"
proof -
  obtain tw st' where tw: "loadTailwindConfigIfNeeded h srv st = (tw, st')" by fastforce
  show ?thesis
    by (simp only: generatePageHtml_def Let_def tw prod.case fst_conv)
       ((rule contains_here | rule contains_append)+)
qed

lemma generateAppRouterHtml_contains:
  "\<exists>pre post. fst (generateAppRouterHtml h t srv st r p) = pre @ generateEnvScript srv @ post"
proof -
  obtain tw st' where tw: "loadTailwindConfigIfNeeded h srv st = (tw, st')" by fastforce
  show ?thesis
    by (simp only: generateAppRouterHtml_def Let_def tw prod.case fst_conv)
       ((rule contains_here | rule contains_append)+)
qed

lemma generateEnvScript_distinct:
  \<open>distinct (map fst (env srv)) \<Longrightarrow>
   generateEnvScript srv =
       ''<script>'' @ nl @
       ''  // Environment variables (injected by NextDevServer)'' @ nl @
       ''  window.process = window.process || {};'' @ nl @
       ''  window.process.env = window.process.env || {};'' @ nl @
       ''  Object.assign(window.process.env, '' @ JSON_stringify_record (filter isPublic (env srv)) @ '');'' @ nl @
       ''  // Next.js config values'' @ nl @
       ''  window.__NEXT_BASE_PATH__ = '' @ JSON_quote (basePath srv) @ '';'' @ nl @
       ''</script>''\<close>
  by (simp add: generateEnvScript_def publicEnvVarsOf_distinct)

text \<open>
  Claim C3, as amended. \<open>env\<close> is a plain object, so its entries have distinct keys and
  an enumeration order. The environment script assigns to \<open>process.env\<close> the JSON text of
  exactly the entries whose key starts with \<open>NEXT_PUBLIC_\<close>, in that order; both HTML
  shells contain the script; and two environments with the same public entries in the
  same order (in particular two that differ in non-public entries only) get the same
  response, and leave the same server state, for every page-route request: found pages,
  custom not-found pages and the built-in 404 alike. No non-public entry can influence an
  HTML body.
\<close>

theorem C3_only_public_env_reaches_html:
  \<open>(distinct (map fst (env srv)) \<longrightarrow>
      generateEnvScript srv =
       ''<script>'' @ nl @
       ''  // Environment variables (injected by NextDevServer)'' @ nl @
       ''  window.process = window.process || {};'' @ nl @
       ''  window.process.env = window.process.env || {};'' @ nl @
       ''  Object.assign(window.process.env, '' @ JSON_stringify_record (filter isPublic (env srv)) @ '');'' @ nl @
       ''  // Next.js config values'' @ nl @
       ''  window.__NEXT_BASE_PATH__ = '' @ JSON_quote (basePath srv) @ '';'' @ nl @
       ''</script>'')
   \<and> (\<exists>pre post. fst (generatePageHtml h t srv st f p) = pre @ generateEnvScript srv @ post)
   \<and> (\<exists>pre post. fst (generateAppRouterHtml h t srv st r p) = pre @ generateEnvScript srv @ post)
   \<and> (filter isPublic e1 = filter isPublic e2 \<longrightarrow>
        handlePageRoute h t (srv\<lparr>env := e1\<rparr>) st p q = handlePageRoute h t (srv\<lparr>env := e2\<rparr>) st p q)\<close>
  using generateEnvScript_distinct [of srv] generatePageHtml_contains [of h t srv st f p]
    generateAppRouterHtml_contains [of h t srv st r p] handlePageRoute_env [of e1 e2 h t srv st p q]
  by blast

definition pagesServer :: server where
  "pagesServer = serverOn (mkVFS [(''/pages/index.jsx'', ''P'')])"

text \<open>\<open>env = { NEXT_PUBLIC_A: "x", SECRET: "s" }\<close>, and an environment with other secrets.\<close>

definition envWithSecret :: "string obj" where
  "envWithSecret = [(''NEXT_PUBLIC_A'', ''x''), (''SECRET'', ''s'')]"

definition envOtherSecrets :: "string obj" where
  "envOtherSecrets = [(''TOKEN'', ''t''), (''NEXT_PUBLIC_A'', ''x''), (''SECRET'', ''other'')]"

theorem C3_only_public_env_reaches_html_witness:
  \<open>distinct (map fst (env (pagesServer\<lparr>env := envWithSecret\<rparr>)))
   \<and> generateEnvScript (pagesServer\<lparr>env := envWithSecret\<rparr>) =
       ''<script>'' @ nl @
       ''  // Environment variables (injected by NextDevServer)'' @ nl @
       ''  window.process = window.process || {};'' @ nl @
       ''  window.process.env = window.process.env || {};'' @ nl @
       ''  Object.assign(window.process.env, '' @ JSON_stringify_record (filter isPublic (env (pagesServer\<lparr>env := envWithSecret\<rparr>))) @ '');'' @ nl @
       ''  // Next.js config values'' @ nl @
       ''  window.__NEXT_BASE_PATH__ = '' @ JSON_quote (basePath (pagesServer\<lparr>env := envWithSecret\<rparr>)) @ '';'' @ nl @
       ''</script>''
   \<and> JSON_stringify_record (filter isPublic (env (pagesServer\<lparr>env := envWithSecret\<rparr>))) =
       ''{"NEXT_PUBLIC_A":"x"}''
   \<and> filter isPublic envWithSecret = filter isPublic envOtherSecrets
   \<and> handlePageRoute (hostRunning endsAtOnce) noTemplates (pagesServer\<lparr>env := envWithSecret\<rparr>)
         initialState ''/'' [] =
       handlePageRoute (hostRunning endsAtOnce) noTemplates (pagesServer\<lparr>env := envOtherSecrets\<rparr>)
         initialState ''/'' []\<close>
proof -
  have d: "distinct (map fst (env (pagesServer\<lparr>env := envWithSecret\<rparr>)))"
    by (simp add: envWithSecret_def)
  have f: "filter isPublic envWithSecret = filter isPublic envOtherSecrets"
    by code_simp
  have j: \<open>JSON_stringify_record (filter isPublic (env (pagesServer\<lparr>env := envWithSecret\<rparr>))) =
           ''{"NEXT_PUBLIC_A":"x"}''\<close>
    by code_simp
  note T = C3_only_public_env_reaches_html
         [of "pagesServer\<lparr>env := envWithSecret\<rparr>" "hostRunning endsAtOnce" noTemplates
             initialState "''/pages/index.jsx''" "''/''" undefined envWithSecret envOtherSecrets "[]"]
  from T f have
    "handlePageRoute (hostRunning endsAtOnce) noTemplates
       (pagesServer\<lparr>env := envWithSecret, env := envWithSecret\<rparr>) initialState ''/'' [] =
     handlePageRoute (hostRunning endsAtOnce) noTemplates
       (pagesServer\<lparr>env := envWithSecret, env := envOtherSecrets\<rparr>) initialState ''/'' []"
    by blast
  then have B:
    "handlePageRoute (hostRunning endsAtOnce) noTemplates
       (pagesServer\<lparr>env := envWithSecret\<rparr>) initialState ''/'' [] =
     handlePageRoute (hostRunning endsAtOnce) noTemplates
       (pagesServer\<lparr>env := envOtherSecrets\<rparr>) initialState ''/'' []"
    by simp
  from T d f j B show ?thesis
    by blast
qed

text \<open>
  The claim as stated fails for two environments that hold the same public entries in a
  different enumeration order: \<open>JSON.stringify\<close> writes them in that order, so the bodies
  differ (though by public data only).
\<close>

definition envAB :: "string obj" where
  "envAB = [(''NEXT_PUBLIC_A'', ''x''), (''NEXT_PUBLIC_B'', ''y'')]"

definition envBA :: "string obj" where
  "envBA = [(''NEXT_PUBLIC_B'', ''y''), (''NEXT_PUBLIC_A'', ''x'')]"

lemma generatePageHtml_differs:
  "generateEnvScript (srv\<lparr>env := e1\<rparr>) \<noteq> generateEnvScript (srv\<lparr>env := e2\<rparr>) \<Longrightarrow>
   fst (generatePageHtml h t (srv\<lparr>env := e1\<rparr>) st f p) \<noteq> fst (generatePageHtml h t (srv\<lparr>env := e2\<rparr>) st f p)"
  by (simp add: generatePageHtml_def Let_def split_beta)

theorem C3_only_public_env_reaches_html_counterexample:
  "map_of envAB = map_of envBA \<and>
   body (fst (handlePageRoute (hostRunning endsAtOnce) noTemplates (pagesServer\<lparr>env := envAB\<rparr>)
           initialState ''/'' []))
   \<noteq> body (fst (handlePageRoute (hostRunning endsAtOnce) noTemplates (pagesServer\<lparr>env := envBA\<rparr>)
             initialState ''/'' []))"
proof -
  have r: "resolvePageFile pagesServer ''/'' = Some ''/pages/index.jsx''"
    by code_simp
  have n: "\<not> needsTransform ''/''" by code_simp
  have u: "\<not> useAppRouter pagesServer" by (simp add: pagesServer_def serverOn_def)
  have s: "map_of envAB = map_of envBA" by (auto simp: envAB_def envBA_def fun_eq_iff)
  have d: "generateEnvScript (pagesServer\<lparr>env := envAB\<rparr>) \<noteq> generateEnvScript (pagesServer\<lparr>env := envBA\<rparr>)"
    by code_simp
  have b: "body (fst (handlePageRoute h t (pagesServer\<lparr>env := e\<rparr>) st ''/'' [])) =
           fst (generatePageHtml h t (pagesServer\<lparr>env := e\<rparr>) st ''/pages/index.jsx'' ''/'')" for h t e st
    using u by (simp add: handlePageRoute_def r n split_beta htmlResponse_def)
  show ?thesis
    using generatePageHtml_differs [OF d] by (simp add: b s)
qed



section \<open>Properties of the route-handler dispatcher\<close>

text \<open>
  Once the route module has been read, transformed and evaluated, a request whose
  method, in upper case and in lower case, reads no function from \<open>module.exports\<close> is
  answered 405 \<open>Method Not Allowed\<close> with the JSON text of
  \<open>{ error: "Method <method> not allowed" }\<close>, the method written as the request gave it.
\<close>

lemma handleAppRouteHandler_not_a_function:
  "readFileSync (vfs srv) routeFile = Inr code \<Longrightarrow>
   transformApiHandler h (vfs srv) code routeFile = Inr transformed \<Longrightarrow>
   evaluateModule h transformed (env srv) = Inr exports \<Longrightarrow>
   \<not> isFunction (exports (toUpperCase method)) \<Longrightarrow>
   \<not> isFunction (exports (toLowerCase (toUpperCase method))) \<Longrightarrow>
   handleAppRouteHandler h srv method pathname hdrs body0 routeFile search =
     \<lparr>statusCode = 405, statusMessage = ''Method Not Allowed'',
      res_headers = [(''Content-Type'', ''application/json; charset=utf-8'')],
      body = JSON_stringify_record [(''error'', ''Method '' @ method @ '' not allowed'')]\<rparr>"
proof -
  assume r: "readFileSync (vfs srv) routeFile = Inr code"
    and t: "transformApiHandler h (vfs srv) code routeFile = Inr transformed"
    and e: "evaluateModule h transformed (env srv) = Inr exports"
    and u: "\<not> isFunction (exports (toUpperCase method))"
    and l: "\<not> isFunction (exports (toLowerCase (toUpperCase method)))"
  from u obtain tu where tu: "exports (toUpperCase method) = NotFunction tu"
    by (cases "exports (toUpperCase method)") (simp_all add: isFunction_def)
  from l obtain tl where tl: "exports (toLowerCase (toUpperCase method)) = NotFunction tl"
    by (cases "exports (toLowerCase (toUpperCase method))") (simp_all add: isFunction_def)
  show ?thesis
    by (simp add: handleAppRouteHandler_def r t e tu tl Let_def)
qed

text \<open>
  \<open>module.exports\<close> is created as \<open>{}\<close>: a property the module did not set is read from
  \<open>Object.prototype\<close>. \<open>constructor\<close> is the function \<open>Object\<close>, which returns its first
  argument (the \<open>Request\<close>, whose JSON text is \<open>{}\<close>); \<open>toString\<close> called without a receiver
  returns \<open>[object Undefined]\<close>; the other functions throw a \<open>TypeError\<close> without one (the
  message is the engine's); \<open>__proto__\<close> is an object, not a function. Anything else is
  \<open>undefined\<close>.
\<close>

definition objectPrototype :: "string \<Rightarrow> jsExport" where
  \<open>objectPrototype name =
     (if name = ''constructor'' then Function (\<lambda>request ps. PlainObject ''{}'')
      else if name = ''toString'' then Function (\<lambda>request ps. OtherValue ''[object Undefined]'')
      else if name \<in> set [''toLocaleString'', ''valueOf'', ''hasOwnProperty'', ''isPrototypeOf'',
                            ''propertyIsEnumerable'', ''__defineGetter__'', ''__defineSetter__'',
                            ''__lookupGetter__'', ''__lookupSetter__'']
        then Function (\<lambda>request ps. HandlerThrew (Some ''Cannot convert undefined or null to object''))
      else if name = ''__proto__'' then NotFunction True
      else NotFunction False)\<close>

text \<open>A route module that exports \<open>GET\<close> only.\<close>

definition onlyGET :: "string \<Rightarrow> jsExport" where
  \<open>onlyGET name =
     (if name = ''GET'' then Function (\<lambda>request ps. PlainObject ''{"items":[]}'')
      else objectPrototype name)\<close>

definition hostOnlyGET :: host where
  "hostOnlyGET = (hostRunning endsAtOnce)\<lparr>evaluateModule := (\<lambda>code e. Inr onlyGET)\<rparr>"

definition itemsServer :: server where
  "itemsServer = appServer [(''/app/api/items/route.ts'', ''export async function GET() {}'')]"

lemmas route_handler_eval =
  handleAppRouteHandler_def itemsServer_def appServer_def serverOn_def mkVFS_def hostOnlyGET_def
  hostRunning_def onlyGET_def objectPrototype_def toUpperCase_def toLowerCase_def charBetween_def
  JSON_stringify_record_def JSON_quote_def JSON_escape_def Let_def

text \<open>
  Claim C8 (the code departs from it). The handler is looked up by reading
  \<open>module.exports[METHOD] || module.exports[method]\<close>, and a read also finds what the
  object inherits. A \<open>POST\<close> to a module exporting only \<open>GET\<close> is answered 405 as the claim
  says, but a request with the method \<open>constructor\<close> reads the inherited function \<open>Object\<close>,
  which is called as the handler: the answer is 200 with the body \<open>{}\<close> although the
  module exports no function of that name.
\<close>

theorem C8_inherited_function_is_dispatched:
  \<open>resolveAppRouteHandler itemsServer ''/api/items'' = Some ''/app/api/items/route.ts''
   \<and> handleAppRouteHandler hostOnlyGET itemsServer ''POST'' ''/api/items'' [] (Some ''{}'')
        ''/app/api/items/route.ts'' [] =
       \<lparr>statusCode = 405, statusMessage = ''Method Not Allowed'',
        res_headers = [(''Content-Type'', ''application/json; charset=utf-8'')],
        body = ''{"error":"Method POST not allowed"}''\<rparr>
   \<and> handleAppRouteHandler hostOnlyGET itemsServer ''constructor'' ''/api/items'' [] None
        ''/app/api/items/route.ts'' [] =
       \<lparr>statusCode = 200, statusMessage = ''OK'',
        res_headers = [(''Content-Type'', ''application/json; charset=utf-8'')],
        body = ''{}''\<rparr>
   \<and> fst (handleRequest hostOnlyGET noTemplates itemsServer initialState ''constructor''
          ''/api/items'' [] None) =
       \<lparr>statusCode = 200, statusMessage = ''OK'',
        res_headers = [(''Content-Type'', ''application/json; charset=utf-8'')],
        body = ''{}''\<rparr>\<close>
proof (intro conjI)
  show \<open>fst (handleRequest hostOnlyGET noTemplates itemsServer initialState ''constructor''
          ''/api/items'' [] None) =
       \<lparr>statusCode = 200, statusMessage = ''OK'',
        res_headers = [(''Content-Type'', ''application/json; charset=utf-8'')],
        body = ''{}''\<rparr>\<close>
    by code_simp
  show "resolveAppRouteHandler itemsServer ''/api/items'' = Some ''/app/api/items/route.ts''"
    by (simp add: resolveAppRouteHandler_def itemsServer_def appServer_def serverOn_def mkVFS_def
          pathSegments_def findRoute_def routeExtensions_def)
  show \<open>handleAppRouteHandler hostOnlyGET itemsServer ''POST'' ''/api/items'' [] (Some ''{}'')
        ''/app/api/items/route.ts'' [] =
       \<lparr>statusCode = 405, statusMessage = ''Method Not Allowed'',
        res_headers = [(''Content-Type'', ''application/json; charset=utf-8'')],
        body = ''{"error":"Method POST not allowed"}''\<rparr>\<close>
    by (simp add: route_handler_eval)
  have u: "toUpperCase ''constructor'' = ''CONSTRUCTOR''" by code_simp
  have l: "toLowerCase ''CONSTRUCTOR'' = ''constructor''" by code_simp
  show \<open>handleAppRouteHandler hostOnlyGET itemsServer ''constructor'' ''/api/items'' [] None
        ''/app/api/items/route.ts'' [] =
       \<lparr>statusCode = 200, statusMessage = ''OK'',
        res_headers = [(''Content-Type'', ''application/json; charset=utf-8'')],
        body = ''{}''\<rparr>\<close>
    by (simp add: handleAppRouteHandler_def itemsServer_def appServer_def serverOn_def mkVFS_def
          hostOnlyGET_def hostRunning_def onlyGET_def objectPrototype_def u l Let_def)
qed


section \<open>Properties of the request dispatcher\<close>

text \<open>
  A path carries a virtual prefix when the pattern \<open>/^\/__virtual__\/\d+/\<close> matches it, and
  lies under a configured prefix when it starts with it and goes on with \<open>/\<close> or ends
  there: the conditions under which the three steps strip.
\<close>

definition virtualPrefixed :: "string \<Rightarrow> bool" where
  "virtualPrefixed p \<longleftrightarrow> startsWith p ''/__virtual__/'' \<and> takeWhile isDigit (drop 13 p) \<noteq> []"

definition underPrefix :: "string \<Rightarrow> string \<Rightarrow> bool" where
  "underPrefix pre p \<longleftrightarrow>
     pre \<noteq> [] \<and> startsWith p pre
     \<and> (drop (length pre) p = [] \<or> startsWith (drop (length pre) p) ''/'')"

lemma stripVirtualPrefix_id: "\<not> virtualPrefixed p \<Longrightarrow> stripVirtualPrefix p = p"
  by (auto simp: virtualPrefixed_def stripVirtualPrefix_def Let_def)

lemma stripAssetPrefix_id: "\<not> underPrefix (assetPrefix srv) p \<Longrightarrow> stripAssetPrefix srv p = p"
  by (auto simp: underPrefix_def stripAssetPrefix_def Let_def)

lemma stripBasePath_id: "\<not> underPrefix (basePath srv) p \<Longrightarrow> stripBasePath srv p = p"
  by (auto simp: underPrefix_def stripBasePath_def Let_def)

lemma takeWhile_digits:
  "list_all isDigit ds \<Longrightarrow> startsWith P ''/'' \<Longrightarrow> takeWhile isDigit (ds @ P) = ds"
  by (induction ds) (auto simp: startsWith_def isDigit_def charBetween_def prefix_def)

lemma drop_prefix_plus: "length a = n \<Longrightarrow> drop (n + length b) (a @ b @ c) = c"
  by simp

lemma stripVirtualPrefix_prepend:
  assumes "ds \<noteq> []" "list_all isDigit ds" "startsWith P ''/''"
  shows "stripVirtualPrefix (''/__virtual__/'' @ ds @ P) = P"
proof -
  have t: "takeWhile isDigit (drop 13 (''/__virtual__/'' @ ds @ P)) = ds"
    using takeWhile_digits [OF assms(2,3)] by simp
  have d: "drop (13 + length ds) (''/__virtual__/'' @ ds @ P) = P"
    by (rule drop_prefix_plus) simp
  have n: "P \<noteq> []" using assms(3) by (auto simp: startsWith_def)
  have p: "startsWith (''/__virtual__/'' @ ds @ P) ''/__virtual__/''"
    by (simp add: startsWith_def)
  show ?thesis
    unfolding stripVirtualPrefix_def Let_def t d using assms(1) n p by simp
qed

lemma stripAssetPrefix_prepend:
  assumes "assetPrefix srv \<noteq> []" "startsWith P ''/''" "\<not> startsWith P ''//''"
  shows "stripAssetPrefix srv (assetPrefix srv @ P) = P"
  using assms by (auto simp: stripAssetPrefix_def startsWith_def Let_def)

lemma stripAssetPrefix_prepend_slash:
  assumes "assetPrefix srv \<noteq> []" "startsWith P ''/''"
  shows "stripAssetPrefix srv (assetPrefix srv @ ''/'' @ P) = P"
  using assms by (auto simp: stripAssetPrefix_def startsWith_def Let_def prefix_def)

lemma stripBasePath_prepend:
  assumes "basePath srv \<noteq> []" "startsWith P ''/''"
  shows "stripBasePath srv (basePath srv @ P) = P"
  using assms by (auto simp: stripBasePath_def startsWith_def Let_def)

lemma handleRequest_same_path:
  assumes "url_search (parseURL h u') = url_search (parseURL h u)"
    and "url_searchParams (parseURL h u') = url_searchParams (parseURL h u)"
    and "stripBasePath srv (stripAssetPrefix srv (stripVirtualPrefix (url_pathname (parseURL h u')))) =
         stripBasePath srv (stripAssetPrefix srv (stripVirtualPrefix (url_pathname (parseURL h u))))"
  shows "handleRequest h t srv st meth u' hdrs body0 = handleRequest h t srv st meth u hdrs body0"
  unfolding handleRequest_def Let_def assms ..

text \<open>
  Claim C1, as amended. Take two requests that differ in the parsed pathname only: one
  has a path \<open>P\<close> that begins with \<open>/\<close> and carries no virtual prefix, the other has a
  prefix before \<open>P\<close>. Then \<open>handleRequest\<close> returns the same response and leaves the same
  state for both when the prefix is
  \<^item> the virtual prefix \<open>/__virtual__/<digits>\<close>;
  \<^item> \<open>assetPrefix\<close>, alone (\<open>P\<close> not beginning with \<open>//\<close>) or followed by a slash, when
    \<open>P\<close> does not itself lie under \<open>assetPrefix\<close> and the prefixed path is not taken for a
    virtual prefix;
  \<^item> \<open>basePath\<close>, when \<open>P\<close> lies under neither \<open>assetPrefix\<close> nor \<open>basePath\<close> and the
    prefixed path is not caught by the two earlier steps.
  Each prefix is stripped once, in this order, so a path \<open>P\<close> that itself begins with a
  prefix is the exception.
\<close>

theorem C1_prefixes_are_transparent:
  assumes same: "parseURL h u' = (parseURL h u)\<lparr>url_pathname := pre @ P\<rparr>"
    and P: "url_pathname (parseURL h u) = P"
    and slash: "startsWith P ''/''"
    and clean: "\<not> virtualPrefixed P"
  shows
    "(ds \<noteq> [] \<and> list_all isDigit ds \<and> pre = ''/__virtual__/'' @ ds \<longrightarrow>
        handleRequest h t srv st meth u' hdrs body0 = handleRequest h t srv st meth u hdrs body0)
     \<and> (assetPrefix srv \<noteq> [] \<and> (pre = assetPrefix srv \<and> \<not> startsWith P ''//'' \<or> pre = assetPrefix srv @ ''/'')
          \<and> \<not> virtualPrefixed (pre @ P) \<and> \<not> underPrefix (assetPrefix srv) P \<longrightarrow>
        handleRequest h t srv st meth u' hdrs body0 = handleRequest h t srv st meth u hdrs body0)
     \<and> (basePath srv \<noteq> [] \<and> pre = basePath srv
          \<and> \<not> virtualPrefixed (pre @ P) \<and> \<not> underPrefix (assetPrefix srv) (pre @ P)
          \<and> \<not> underPrefix (assetPrefix srv) P \<and> \<not> underPrefix (basePath srv) P \<longrightarrow>
        handleRequest h t srv st meth u' hdrs body0 = handleRequest h t srv st meth u hdrs body0)"
proof -
  have s: "url_search (parseURL h u') = url_search (parseURL h u)"
    and q: "url_searchParams (parseURL h u') = url_searchParams (parseURL h u)"
    and p': "url_pathname (parseURL h u') = pre @ P"
    by (simp_all add: same)
  note eqI = handleRequest_same_path [OF s q, unfolded p' P]
  have v: "stripVirtualPrefix P = P" by (rule stripVirtualPrefix_id [OF clean])
  show ?thesis
  proof (intro conjI impI)
    assume "ds \<noteq> [] \<and> list_all isDigit ds \<and> pre = ''/__virtual__/'' @ ds"
    then show "handleRequest h t srv st meth u' hdrs body0 = handleRequest h t srv st meth u hdrs body0"
      using stripVirtualPrefix_prepend [of ds P] slash by (intro eqI) (simp add: v)
  next
    assume a: "assetPrefix srv \<noteq> [] \<and> (pre = assetPrefix srv \<and> \<not> startsWith P ''//'' \<or> pre = assetPrefix srv @ ''/'')
          \<and> \<not> virtualPrefixed (pre @ P) \<and> \<not> underPrefix (assetPrefix srv) P"
    then have "stripAssetPrefix srv (pre @ P) = P"
      using stripAssetPrefix_prepend [of srv P] stripAssetPrefix_prepend_slash [of srv P] slash by auto
    then show "handleRequest h t srv st meth u' hdrs body0 = handleRequest h t srv st meth u hdrs body0"
      using a by (intro eqI) (simp add: v stripVirtualPrefix_id stripAssetPrefix_id)
  next
    assume b: "basePath srv \<noteq> [] \<and> pre = basePath srv
          \<and> \<not> virtualPrefixed (pre @ P) \<and> \<not> underPrefix (assetPrefix srv) (pre @ P)
          \<and> \<not> underPrefix (assetPrefix srv) P \<and> \<not> underPrefix (basePath srv) P"
    then have b1: "stripVirtualPrefix (basePath srv @ P) = basePath srv @ P"
      and b2: "stripAssetPrefix srv (basePath srv @ P) = basePath srv @ P"
      and b3: "stripAssetPrefix srv P = P" and b4: "stripBasePath srv P = P"
      and b5: "stripBasePath srv (basePath srv @ P) = P" and b6: "pre = basePath srv"
      using stripBasePath_prepend [of srv P] slash
      by (auto simp: stripVirtualPrefix_id stripAssetPrefix_id stripBasePath_id)
    show "handleRequest h t srv st meth u' hdrs body0 = handleRequest h t srv st meth u hdrs body0"
      by (intro eqI) (simp add: v b1 b2 b3 b4 b5 b6)
  qed
qed


text \<open>
  The claim as stated fails when \<open>P\<close> itself begins with the prefix. With \<open>basePath\<close>
  \<open>/docs\<close> and a page \<open>/pages/docs.jsx\<close>, the request for \<open>/docs/docs\<close> (\<open>basePath\<close> before
  \<open>P = /docs\<close>) is served the page, while the request for \<open>P\<close> alone is stripped to \<open>/\<close>
  and answered 404.
\<close>

definition docsServer :: server where
  "docsServer = (serverOn (mkVFS [(''/pages/docs.jsx'', ''P'')]))\<lparr>basePath := ''/docs''\<rparr>"

lemmas dispatch_eval =
  handleRequest_def hostRunning_def simpleURL_def parseQuery_def startsWith_def endsWith_def
  stripVirtualPrefix_def stripAssetPrefix_def stripBasePath_def isDigit_def charBetween_def
  serverOn_def mkVFS_def needsTransform_def resolveFileWithExtension_def hasExtension_def
  isWordChar_def handlePageRoute_def resolvePageFile_def resolveDynamicRoute_def pathSegments_def
  extensions_def dynamicFilePattern_def htmlResponse_def serve404Page_def split_beta Let_def

theorem C1_prefixes_are_transparent_counterexample:
  "''/docs/docs'' = basePath docsServer @ ''/docs''
   \<and> statusCode (fst (handleRequest (hostRunning endsAtOnce) noTemplates docsServer initialState
         ''GET'' ''/docs/docs'' [] None)) = 200
   \<and> statusCode (fst (handleRequest (hostRunning endsAtOnce) noTemplates docsServer initialState
         ''GET'' ''/docs'' [] None)) = 404"
  by (simp add: docsServer_def dispatch_eval suffix_def)


text \<open>
  \<open>assetPrefix = "/m"\<close>, \<open>basePath = "/docs"\<close>, a public file and a page: the four prefixed
  requests, among them \<open>GET /m//images/x.png\<close>, are answered as the plain ones.
\<close>

definition assetServer :: server where
  "assetServer =
     (serverOn (mkVFS [(''/public/images/x.png'', ''PNG''), (''/pages/about.jsx'', ''A'')]))
       \<lparr>assetPrefix := ''/m'', basePath := ''/docs''\<rparr>"

lemmas prefix_eval =
  hostRunning_def simpleURL_def parseQuery_def startsWith_def virtualPrefixed_def underPrefix_def
  isDigit_def charBetween_def assetServer_def serverOn_def

theorem C1_prefixes_are_transparent_witness:
  "handleRequest (hostRunning endsAtOnce) noTemplates assetServer initialState ''GET''
       ''/__virtual__/3001/images/x.png'' [] None =
     handleRequest (hostRunning endsAtOnce) noTemplates assetServer initialState ''GET''
       ''/images/x.png'' [] None
   \<and> handleRequest (hostRunning endsAtOnce) noTemplates assetServer initialState ''GET''
       ''/m/images/x.png'' [] None =
     handleRequest (hostRunning endsAtOnce) noTemplates assetServer initialState ''GET''
       ''/images/x.png'' [] None
   \<and> handleRequest (hostRunning endsAtOnce) noTemplates assetServer initialState ''GET''
       ''/m//images/x.png'' [] None =
     handleRequest (hostRunning endsAtOnce) noTemplates assetServer initialState ''GET''
       ''/images/x.png'' [] None
   \<and> handleRequest (hostRunning endsAtOnce) noTemplates assetServer initialState ''GET''
       ''/docs/about'' [] None =
     handleRequest (hostRunning endsAtOnce) noTemplates assetServer initialState ''GET''
       ''/about'' [] None
   \<and> statusCode (fst (handleRequest (hostRunning endsAtOnce) noTemplates assetServer initialState
         ''GET'' ''/images/x.png'' [] None)) = 200
   \<and> body (fst (handleRequest (hostRunning endsAtOnce) noTemplates assetServer initialState
         ''GET'' ''/images/x.png'' [] None)) = ''PNG''"
proof -
  let ?h = "hostRunning endsAtOnce"
  have v: "handleRequest ?h noTemplates assetServer initialState ''GET''
       ''/__virtual__/3001/images/x.png'' [] None =
     handleRequest ?h noTemplates assetServer initialState ''GET'' ''/images/x.png'' [] None"
    using C1_prefixes_are_transparent
      [where h = ?h and u' = "''/__virtual__/3001/images/x.png''" and u = "''/images/x.png''"
         and pre = "''/__virtual__/3001''" and P = "''/images/x.png''" and ds = "''3001''"
         and srv = assetServer and t = noTemplates and st = initialState and meth = "''GET''"
         and hdrs = "[]" and ?body0.0 = None]
    by (simp add: prefix_eval)
  have a: "handleRequest ?h noTemplates assetServer initialState ''GET''
       ''/m/images/x.png'' [] None =
     handleRequest ?h noTemplates assetServer initialState ''GET'' ''/images/x.png'' [] None"
    using C1_prefixes_are_transparent
      [where h = ?h and u' = "''/m/images/x.png''" and u = "''/images/x.png''"
         and pre = "''/m''" and P = "''/images/x.png''" and ds = "[]"
         and srv = assetServer and t = noTemplates and st = initialState and meth = "''GET''"
         and hdrs = "[]" and ?body0.0 = None]
    by (simp add: prefix_eval)
  have a2: "handleRequest ?h noTemplates assetServer initialState ''GET''
       ''/m//images/x.png'' [] None =
     handleRequest ?h noTemplates assetServer initialState ''GET'' ''/images/x.png'' [] None"
    using C1_prefixes_are_transparent
      [where h = ?h and u' = "''/m//images/x.png''" and u = "''/images/x.png''"
         and pre = "''/m/''" and P = "''/images/x.png''" and ds = "[]"
         and srv = assetServer and t = noTemplates and st = initialState and meth = "''GET''"
         and hdrs = "[]" and ?body0.0 = None]
    by (simp add: prefix_eval)
  have b: "handleRequest ?h noTemplates assetServer initialState ''GET''
       ''/docs/about'' [] None =
     handleRequest ?h noTemplates assetServer initialState ''GET'' ''/about'' [] None"
    using C1_prefixes_are_transparent
      [where h = ?h and u' = "''/docs/about''" and u = "''/about''"
         and pre = "''/docs''" and P = "''/about''" and ds = "[]"
         and srv = assetServer and t = noTemplates and st = initialState and meth = "''GET''"
         and hdrs = "[]" and ?body0.0 = None]
    by (simp add: prefix_eval)
  have r: "statusCode (fst (handleRequest ?h noTemplates assetServer initialState
         ''GET'' ''/images/x.png'' [] None)) = 200
      \<and> body (fst (handleRequest ?h noTemplates assetServer initialState
         ''GET'' ''/images/x.png'' [] None)) = ''PNG''"
    by (simp add: assetServer_def dispatch_eval serveFile_def suffix_def String_of_nat.simps)
  from v a a2 b r show ?thesis by blast
qed

section \<open>Properties of the legacy API dispatcher\<close>

text \<open>A handler that answers \<open>res.json(req.query)\<close>.\<close>

definition echoQuery :: "mockRequest \<Rightarrow> behaviour" where
  "echoQuery req =
     \<lparr>during = [Json (JSON_stringify_record (req_query req))], outcome = Returns, later = []\<rparr>"


text \<open>
  Claim C9 (the code departs from it). \<open>handleRequest\<close> hands \<open>handleApiRoute\<close> the
  pathname, which the URL parser has already separated from the query string, and
  \<open>createMockRequest\<close> parses the query out of that pathname: \<open>req.query\<close> is empty
  whatever the request URL carried. For \<open>GET /api/hello?name=world\<close> the request URL has
  the parameter \<open>name = world\<close>, and the handler that echoes \<open>req.query\<close> answers \<open>{}\<close>.
\<close>

theorem C9_legacy_query_is_empty:
  \<open>url_searchParams (parseURL (hostRunning echoQuery) ''/api/hello?name=world'') = [(''name'', ''world'')]
   \<and> fst (handleRequest (hostRunning echoQuery) noTemplates
           (serverOn (mkVFS [(''/pages/api/hello.js'', ''x'')])) initialState
           ''GET'' ''/api/hello?name=world'' [] None) =
       \<lparr>statusCode = 200, statusMessage = ''OK'',
        res_headers = [(''Content-Type'', ''application/json; charset=utf-8''), (''Content-Length'', ''2'')],
        body = ''{}''\<rparr>\<close>
  by (simp add: dispatch_eval handleApiRoute_def resolveApiFile_def createMockRequest_def
        Object_fromEntries_def parseCookies_def echoQuery_def createMockResponse_def m_json_def
        toResponse_def JSON_stringify_record_def String_of_nat.simps keyBefore_def isArrayIndex_def)


end
